theory Spec2Isabelle
  imports Complex_Main "HOL-Library.Multiset"
begin

section \<open>Data model of \<open>source/NewDataset.py\<close>\<close>

text \<open>
  Errors the interpreter raises in the modelled functions.  The source has no
  \<open>raise\<close> statement of its own; every failure is one of Python's built-in
  exceptions.
\<close>

datatype error =
  ZeroDivisionError | IndexError | TypeError | ValueError | UnboundLocalError | AttributeError

text \<open>
  A numpy float: a finite value (modelled by an exact real), an infinity or NaN.
  Dividing numpy floats by zero does not raise; it gives an infinity, or NaN
  for \<open>0 / 0\<close>.  Zero is taken as positive zero, and rounding and overflow of
  finite values are not modelled.
\<close>

datatype npfloat = Fin real | PInf | NInf | NaN

definition np_div :: "real \<Rightarrow> real \<Rightarrow> npfloat" where
  "np_div x y =
     (if y \<noteq> 0 then Fin (x / y)
      else if x = 0 then NaN else if 0 < x then PInf else NInf)"

text \<open>
  The arithmetic and the comparison of numpy floats, as IEEE 754 defines them:
  NaN is absorbing, opposite infinities cancel to NaN, and every comparison with
  NaN is false.
\<close>

fun np_neg :: "npfloat \<Rightarrow> npfloat" where
  "np_neg (Fin x) = Fin (- x)"
| "np_neg PInf = NInf"
| "np_neg NInf = PInf"
| "np_neg NaN = NaN"

fun np_plus :: "npfloat \<Rightarrow> npfloat \<Rightarrow> npfloat" where
  "np_plus (Fin x) (Fin y) = Fin (x + y)"
| "np_plus NaN b = NaN"
| "np_plus a NaN = NaN"
| "np_plus PInf NInf = NaN"
| "np_plus NInf PInf = NaN"
| "np_plus PInf b = PInf"
| "np_plus a PInf = PInf"
| "np_plus NInf b = NInf"
| "np_plus a NInf = NInf"

definition np_minus :: "npfloat \<Rightarrow> npfloat \<Rightarrow> npfloat" where
  "np_minus a b = np_plus a (np_neg b)"

fun np_abs :: "npfloat \<Rightarrow> npfloat" where
  "np_abs (Fin x) = Fin \<bar>x\<bar>"
| "np_abs PInf = PInf"
| "np_abs NInf = PInf"
| "np_abs NaN = NaN"

fun np_divide :: "npfloat \<Rightarrow> npfloat \<Rightarrow> npfloat" where
  "np_divide (Fin x) (Fin y) = np_div x y"
| "np_divide NaN b = NaN"
| "np_divide a NaN = NaN"
| "np_divide (Fin x) b = Fin 0"
| "np_divide PInf (Fin y) = (if 0 \<le> y then PInf else NInf)"
| "np_divide NInf (Fin y) = (if 0 \<le> y then NInf else PInf)"
| "np_divide a b = NaN"

fun np_less :: "npfloat \<Rightarrow> npfloat \<Rightarrow> bool" where
  "np_less (Fin x) (Fin y) = (x < y)"
| "np_less NaN b = False"
| "np_less a NaN = False"
| "np_less a NInf = False"
| "np_less PInf b = False"
| "np_less a b = True"


text \<open>
  A bounding box is the list \<open>[top, left, width, height]\<close> of the source.  The
  coordinate type is a parameter: the region search and the importance sampler
  work on Python ints, the uniform sampler and the cleaning pass on floats, which
  are modelled by exact reals.
\<close>

record 'a box =
  btop :: 'a
  bleft :: 'a
  bwidth :: 'a
  bheight :: 'a

definition mk_box :: "'a \<Rightarrow> 'a \<Rightarrow> 'a \<Rightarrow> 'a \<Rightarrow> 'a box" where
  "mk_box t l w h = \<lparr>btop = t, bleft = l, bwidth = w, bheight = h\<rparr>"

record blob =
  class_name :: string
  bbox :: "int box"
  area :: real
  mask :: "int list list"

text \<open>
  The fields of \<open>NewDataset\<close> that the modelled methods read.  \<open>labels\<close>,
  \<open>frequencies\<close> and \<open>radius_map\<close> are \<open>None\<close> until the method that
  computes them has run.
\<close>

record dataset =
  map_w :: int
  map_h :: int
  blobs :: "blob list"
  val_area :: "real box"
  test_area :: "real box"
  labels :: "int list list option"
  crop_size :: int
  frequencies :: "real list option"
  radius_map :: "npfloat list list option"

text \<open>Python's \<open>int()\<close> on a float truncates towards zero.\<close>

definition py_int :: "real \<Rightarrow> int" where
  "py_int x = (if 0 \<le> x then \<lfloor>x\<rfloor> else \<lceil>x\<rceil>)"

text \<open>\<open>range(n)\<close>: empty when \<open>n \<le> 0\<close>.\<close>

definition py_range :: "int \<Rightarrow> int list" where
  "py_range n = map int [0..<nat n]"

section \<open>Geometry\<close>

definition isFullyInsideBBox :: "'a::linordered_idom box \<Rightarrow> 'a box \<Rightarrow> bool" where
  "isFullyInsideBBox bbox1 bbox2 =
     (let top1 = btop bbox1; left1 = bleft bbox1; w1 = bwidth bbox1; h1 = bheight bbox1;
          top2 = btop bbox2; left2 = bleft bbox2; w2 = bwidth bbox2; h2 = bheight bbox2
      in if top1 \<ge> top2 \<and> left1 \<ge> left2 \<and> top1 + h1 < top2 + h2 \<and> left1 + w1 < left2 + w2
         then True else False)"

definition bbox_intersection :: "'a::linordered_idom box \<Rightarrow> 'a box \<Rightarrow> 'a" where
  "bbox_intersection bbox1 bbox2 =
     (let x_left = max (bleft bbox1) (bleft bbox2);
          y_top = max (btop bbox1) (btop bbox2);
          x_right = min (bleft bbox1 + bwidth bbox1) (bleft bbox2 + bwidth bbox2);
          y_bottom = min (btop bbox1 + bheight bbox1) (btop bbox2 + bheight bbox2)
      in if x_right < x_left \<or> y_bottom < y_top then 0
         else (x_right - x_left) * (y_bottom - y_top))"

text \<open>
  \<open>expand\<close> is not a function of the source: it is the box operation the
  containment property is phrased with.  Two readings are given, growing the box
  by \<open>e\<close> on every side, and growing only its extent.
\<close>

definition expand :: "'a::linordered_idom box \<Rightarrow> 'a \<Rightarrow> 'a box" where
  "expand A e = mk_box (btop A - e) (bleft A - e) (bwidth A + 2 * e) (bheight A + 2 * e)"

definition expand_extent :: "'a::linordered_idom box \<Rightarrow> 'a \<Rightarrow> 'a box" where
  "expand_extent A e = mk_box (btop A) (bleft A) (bwidth A + e) (bheight A + e)"

section \<open>Uniform sampling and the cleaning pass\<close>

text \<open>
  \<open>sampleAreaUniformly\<close>: the two nested \<open>for\<close> loops append the centres row
  by row.  \<open>area_W / step\<close> raises \<open>ZeroDivisionError\<close> when \<open>step\<close> is zero.
\<close>

definition sampleAreaUniformly ::
  "dataset \<Rightarrow> real box \<Rightarrow> real \<Rightarrow> real \<Rightarrow> error + (real \<times> real) list" where
  "sampleAreaUniformly ds area_box tile_size step =
     (if step = 0 then Inl ZeroDivisionError
      else
        let area_W = bwidth area_box;
            area_H = bheight area_box;
            tile_cols = 1 + py_int (area_W / step);
            tile_rows = 1 + py_int (area_H / step);
            deltaW = py_int ((area_W - of_int tile_cols * step) / 2);
            deltaH = py_int ((area_H - of_int tile_rows * step) / 2);
            area_top = btop area_box + of_int deltaH
                         - of_int (py_int ((tile_size - of_int (crop_size ds)) / 2));
            area_left = bleft area_box + of_int deltaW
                         - of_int (py_int ((tile_size - of_int (crop_size ds)) / 2))
        in Inr (concat (map (\<lambda>row.
                  map (\<lambda>col.
                         let top = area_top + of_int row * step;
                             left = area_left + of_int col * step;
                             cy = top + tile_size / 2;
                             cx = left + tile_size / 2
                         in (cx, cy))
                      (py_range tile_cols))
                  (py_range tile_rows))))"

text \<open>
  \<open>cleanTrainingTiles\<close>: a tile is \<open>(x, y)\<close>; its padded box has side
  \<open>crop_size + 10\<close> and is centred on the tile.
\<close>

definition tile_bbox :: "dataset \<Rightarrow> real \<times> real \<Rightarrow> real box" where
  "tile_bbox ds tile =
     (let size = of_int (crop_size ds + 10);
          half_size = size / 2
      in mk_box (snd tile - half_size) (fst tile - half_size) size size)"

fun cleanTrainingTiles :: "dataset \<Rightarrow> (real \<times> real) list \<Rightarrow> (real \<times> real) list" where
  "cleanTrainingTiles ds [] = []"
| "cleanTrainingTiles ds (tile # training_tiles) =
     (let areaV = bbox_intersection (tile_bbox ds tile) (val_area ds);
          areaT = bbox_intersection (tile_bbox ds tile) (test_area ds)
      in if areaV < 10 \<and> areaT < 10
         then tile # cleanTrainingTiles ds training_tiles
         else cleanTrainingTiles ds training_tiles)"

text \<open>A dataset as \<open>__init__\<close> leaves it, on a map of the given size.\<close>

definition init_dataset :: "int \<Rightarrow> int \<Rightarrow> blob list \<Rightarrow> dataset" where
  "init_dataset w h bs =
     \<lparr>map_w = w, map_h = h, blobs = bs,
      val_area = mk_box 0 0 0 0, test_area = mk_box 0 0 0 0,
      labels = None, crop_size = 513, frequencies = None, radius_map = None\<rparr>"

text \<open>The dataset of the cleaning-pass example: a validation region of 100 by 20 pixels.\<close>

definition ds_clean :: dataset where
  "ds_clean = (init_dataset 1000 1000 []) \<lparr>val_area := mk_box 0 0 100 20\<rparr>"

section \<open>Region search: the selection stage of \<open>findAreas\<close>\<close>

text \<open>
  Each Phase-2 trial of \<open>findAreas\<close> draws a region \<open>area_bbox\<close> and computes its
  per-class normalised \<open>scores\<close>.  The draws and the metric computations are taken
  as given: a trial is the pair of the region and its scores, the scores being
  finite numbers.  An element of \<open>area_info\<close> is the tuple
  \<open>(area_bbox, scores, aggregated_score)\<close>.
\<close>

type_synonym area_entry = "int box \<times> real list \<times> real"

definition aggregated_score :: "area_entry \<Rightarrow> real" where
  "aggregated_score x = snd (snd x)"

text \<open>
  The body of the second loop, from the scores on:
  \<open>sum(scores) / len(scores)\<close> raises \<open>ZeroDivisionError\<close> on an empty score list.
\<close>

fun phase2_area_info :: "(int box \<times> real list) list \<Rightarrow> error + area_entry list" where
  "phase2_area_info [] = Inr []"
| "phase2_area_info ((area_bbox, scores) # trials) =
     (if length scores = 0 then Inl ZeroDivisionError
      else case phase2_area_info trials of
             Inl e \<Rightarrow> Inl e
           | Inr area_info \<Rightarrow>
               Inr ((area_bbox, scores, sum_list scores / of_nat (length scores)) # area_info))"

text \<open>
  The last loop: the first entry whose intersection with the validation region is
  below 10 is the test region.  When the loop ends without a \<open>break\<close>,
  \<open>test_area\<close> was never assigned, and \<open>return val_area, test_area\<close> raises
  \<open>UnboundLocalError\<close>.
\<close>

fun find_test_area :: "int box \<Rightarrow> area_entry list \<Rightarrow> error + int box" where
  "find_test_area val [] = Inl UnboundLocalError"
| "find_test_area val (x # area_info) =
     (if bbox_intersection val (fst x) < 10 then Inr (fst x)
      else find_test_area val area_info)"

text \<open>
  \<open>findAreas\<close> after the trials: \<open>area_info.sort(key=lambda x: x[2])\<close> is a stable
  ascending sort, as \<open>sort_key\<close> is; \<open>area_info[0]\<close> raises \<open>IndexError\<close> on an
  empty list.  The statements between the sort and the last loop only print.
\<close>

definition findAreas :: "(int box \<times> real list) list \<Rightarrow> error + (int box \<times> int box)" where
  "findAreas trials =
     (case phase2_area_info trials of
        Inl e \<Rightarrow> Inl e
      | Inr area_info \<Rightarrow>
          (case sort_key aggregated_score area_info of
             [] \<Rightarrow> Inl IndexError
           | x # xs \<Rightarrow>
               (case find_test_area (fst x) (x # xs) of
                  Inl e \<Rightarrow> Inl e
                | Inr test \<Rightarrow> Inr (fst x, test))))"

text \<open>
  Example trials on a map of 100 by 100 pixels, where \<open>area_w = area_h = 38\<close> and
  an aspect factor just below 1 gives regions of 38 by 37 pixels.
\<close>

definition trials_demo :: "(int box \<times> real list) list" where
  "trials_demo =
     [(mk_box 0 0 38 37, [1/2, 1/4]), (mk_box 10 10 38 37, [1/5, 1/5]),
      (mk_box 60 60 38 37, [1/2, 1/2]), (mk_box 50 50 38 37, [1/2, 1/3])]"

text \<open>
  \<open>n\<close> trials whose regions all have their corner within the first 20 pixels of
  the diagonal, so that any two of them overlap.
\<close>

definition overlapping_trials :: "nat \<Rightarrow> (int box \<times> real list) list" where
  "overlapping_trials n =
     map (\<lambda>i. (mk_box (int i mod 20) (int i mod 20) 38 37, [1 / (1 + real i)])) [0..<n]"

definition trials_exhausted :: "(int box \<times> real list) list" where
  "trials_exhausted = overlapping_trials 5000"

section \<open>Landscape metrics\<close>

text \<open>
  The slice \<open>xs[a:b]\<close>: a negative bound counts from the end, and both bounds
  are clipped to the list.
\<close>

definition py_slice :: "'a list \<Rightarrow> int \<Rightarrow> int \<Rightarrow> 'a list" where
  "py_slice xs a b =
     (let n = int (length xs);
          lo = (if a < 0 then max (a + n) 0 else min a n);
          hi = (if b < 0 then max (b + n) 0 else min b n)
      in take (nat (hi - lo)) (drop (nat lo) xs))"

text \<open>
  \<open>checkBlobInside\<close>: the boxes are lists of Python numbers, so the division
  raises \<open>ZeroDivisionError\<close> on an entity box without area.
\<close>

definition checkBlobInside :: "int box \<Rightarrow> blob \<Rightarrow> real \<Rightarrow> error + bool" where
  "checkBlobInside area_box blob threshold =
     (let intersection = bbox_intersection area_box (bbox blob)
      in if bwidth (bbox blob) * bheight (bbox blob) = 0 then Inl ZeroDivisionError
         else
           let perc_inside = of_int intersection / of_int (bwidth (bbox blob) * bheight (bbox blob))
           in if perc_inside > threshold then Inr True else Inr False)"

text \<open>
  \<open>computeFrequencies\<close>: the summed areas of the entities of each class, over the
  area of the map; the result is stored in \<open>self.frequencies\<close>.
\<close>

fun computeFrequencies_loop :: "dataset \<Rightarrow> string list \<Rightarrow> error + real list" where
  "computeFrequencies_loop ds [] = Inr []"
| "computeFrequencies_loop ds (c # target_classes) =
     (let area_map = map_w ds * map_h ds;
          area_sum = sum_list (map area (filter (\<lambda>blob. class_name blob = c) (blobs ds)))
      in if area_map = 0 then Inl ZeroDivisionError
         else case computeFrequencies_loop ds target_classes of
                Inl e \<Rightarrow> Inl e
              | Inr freqs \<Rightarrow> Inr (area_sum / of_int area_map # freqs))"

definition computeFrequencies :: "dataset \<Rightarrow> string list \<Rightarrow> error + dataset" where
  "computeFrequencies ds target_classes =
     (case computeFrequencies_loop ds target_classes of
        Inl e \<Rightarrow> Inl e
      | Inr fs \<Rightarrow> Inr (ds\<lparr>frequencies := Some fs\<rparr>))"

text \<open>
  \<open>computeExactCoverage\<close>: \<open>count_label\<close> is \<open>np.count_nonzero(labelsint == i)\<close>.
  Subscripting \<open>self.labels\<close> raises \<open>TypeError\<close> while it is \<open>None\<close>.
\<close>

definition count_label :: "int list list \<Rightarrow> int \<Rightarrow> nat" where
  "count_label labelsint i = sum_list (map (\<lambda>row. length (filter (\<lambda>v. v = i) row)) labelsint)"

definition computeExactCoverage :: "dataset \<Rightarrow> int box \<Rightarrow> string list \<Rightarrow> error + real list" where
  "computeExactCoverage ds area_box target_classes =
     (case labels ds of
        None \<Rightarrow> Inl TypeError
      | Some lab \<Rightarrow>
          let top = btop area_box;
              left = bleft area_box;
              right = left + bwidth area_box;
              bottom = top + bheight area_box;
              labelsint = map (\<lambda>row. py_slice row left right) (py_slice lab top bottom);
              A = bwidth area_box * bheight area_box
          in if target_classes \<noteq> [] \<and> A = 0 then Inl ZeroDivisionError
             else Inr (map (\<lambda>i. real (count_label labelsint (i + 1)) / of_int A)
                         (py_range (int (length target_classes)))))"

text \<open>
  \<open>np.mean\<close> and \<open>np.std\<close> of a non-empty list; \<open>np.std\<close> is the population
  standard deviation, the square root of the mean of the squared absolute
  deviations from the mean.
\<close>

definition np_mean :: "real list \<Rightarrow> real" where
  "np_mean xs = sum_list xs / real (length xs)"

definition np_std :: "real list \<Rightarrow> real" where
  "np_std xs = sqrt (np_mean (map (\<lambda>x. \<bar>x - np_mean xs\<bar>\<^sup>2) xs))"

text \<open>
  The inner loop of \<open>calculateMetrics\<close> over the entities.  \<open>and\<close> evaluates
  \<open>checkBlobInside\<close> only for an entity of the class.
\<close>

fun collect_areas :: "int box \<Rightarrow> string \<Rightarrow> blob list \<Rightarrow> error + real list" where
  "collect_areas area_box c [] = Inr []"
| "collect_areas area_box c (blob # bs) =
     (if class_name blob = c
      then case checkBlobInside area_box blob (3 / 4) of
             Inl e \<Rightarrow> Inl e
           | Inr inside \<Rightarrow>
               (case collect_areas area_box c bs of
                  Inl e \<Rightarrow> Inl e
                | Inr areas \<Rightarrow> Inr (if inside then area blob # areas else areas))
      else collect_areas area_box c bs)"

text \<open>
  \<open>areas = []\<close>, filled only \<open>if self.frequencies[i] > 0.0\<close>.
\<close>

definition class_areas :: "dataset \<Rightarrow> int box \<Rightarrow> real \<Rightarrow> string \<Rightarrow> error + real list" where
  "class_areas ds area_box f c =
     (if f > 0 then collect_areas area_box c (blobs ds) else Inr [])"

text \<open>The coefficient of variation appended to \<open>PSCV\<close>; the division is numpy's.\<close>

definition pscv_of :: "real list \<Rightarrow> npfloat" where
  "pscv_of areas =
     (if length areas > 0
      then let mean_areas = np_mean areas; std_areas = np_std areas
           in np_div (100 * std_areas) mean_areas
      else Fin 0)"

text \<open>
  The loop of \<open>calculateMetrics\<close> over \<open>enumerate(target_classes)\<close>.
  \<open>self.frequencies[i]\<close> raises \<open>TypeError\<close> while \<open>self.frequencies\<close> is \<open>None\<close>
  and \<open>IndexError\<close> when the list is too short.
\<close>

fun calculateMetrics_loop ::
  "dataset \<Rightarrow> int box \<Rightarrow> nat \<Rightarrow> string list \<Rightarrow> error + (nat list \<times> npfloat list)" where
  "calculateMetrics_loop ds area_box i [] = Inr ([], [])"
| "calculateMetrics_loop ds area_box i (c # target_classes) =
     (case frequencies ds of
        None \<Rightarrow> Inl TypeError
      | Some fs \<Rightarrow>
          if length fs \<le> i then Inl IndexError
          else case class_areas ds area_box (fs ! i) c of
                 Inl e \<Rightarrow> Inl e
               | Inr areas \<Rightarrow>
                   (case calculateMetrics_loop ds area_box (Suc i) target_classes of
                      Inl e \<Rightarrow> Inl e
                    | Inr (number, PSCV) \<Rightarrow> Inr (length areas # number, pscv_of areas # PSCV)))"

definition calculateMetrics ::
  "dataset \<Rightarrow> int box \<Rightarrow> string list \<Rightarrow> error + (nat list \<times> real list \<times> npfloat list)" where
  "calculateMetrics ds area_box target_classes =
     (case calculateMetrics_loop ds area_box 0 target_classes of
        Inl e \<Rightarrow> Inl e
      | Inr (number, PSCV) \<Rightarrow>
          (case computeExactCoverage ds area_box target_classes of
             Inl e \<Rightarrow> Inl e
           | Inr coverage \<Rightarrow> Inr (number, coverage, PSCV)))"

text \<open>
  The areas of the counted entities of a class, as the 3/4 rule words them: the
  entities of the class with more than three quarters of their box inside the
  region.
\<close>

definition counted_areas :: "dataset \<Rightarrow> int box \<Rightarrow> string \<Rightarrow> real list" where
  "counted_areas ds area_box c =
     map area (filter (\<lambda>b. class_name b = c \<and>
        real_of_int (bbox_intersection area_box (bbox b))
          / real_of_int (bwidth (bbox b) * bheight (bbox b)) > 3 / 4) (blobs ds))"

text \<open>
  Example data on a map of 100 by 100 pixels: two entities of class A and one of
  class C inside the region \<open>[0, 0, 10, 10]\<close>, one of class B outside it.  The
  label raster is all background.
\<close>

definition blobs_demo :: "blob list" where
  "blobs_demo =
     [\<lparr>class_name = ''A'', bbox = mk_box 0 0 2 2, area = 3, mask = [[1, 1], [1, 0]]\<rparr>,
      \<lparr>class_name = ''A'', bbox = mk_box 4 4 3 3, area = 5, mask = [[0, 1, 0], [1, 1, 1], [0, 1, 0]]\<rparr>,
      \<lparr>class_name = ''B'', bbox = mk_box 50 50 2 2, area = 4, mask = [[1, 1], [1, 1]]\<rparr>,
      \<lparr>class_name = ''C'', bbox = mk_box 7 1 3 3, area = 7, mask = [[1, 1, 1], [1, 1, 1], [1, 0, 0]]\<rparr>]"

definition labels_demo :: "int list list" where
  "labels_demo = replicate 100 (replicate 100 0)"

definition ds_metrics :: dataset where
  "ds_metrics = (init_dataset 100 100 blobs_demo)
      \<lparr>labels := Some labels_demo, frequencies := Some [8 / 10000, 4 / 10000, 7 / 10000]\<rparr>"

definition ds_zero_freq :: dataset where
  "ds_zero_freq = (init_dataset 100 100 blobs_demo)
      \<lparr>labels := Some labels_demo, frequencies := Some [0, 4 / 10000]\<rparr>"

text \<open>
  Example data with an entity of area 0: of the two entities of class A, the one
  inside the region \<open>[0, 0, 10, 10]\<close> has no pixel, the one outside it has four,
  so the frequency of the class, as \<open>computeFrequencies\<close> stores it, is positive.
\<close>

definition blobs_zero_area :: "blob list" where
  "blobs_zero_area =
     [\<lparr>class_name = ''A'', bbox = mk_box 0 0 2 2, area = 0, mask = [[0, 0], [0, 0]]\<rparr>,
      \<lparr>class_name = ''A'', bbox = mk_box 50 50 2 2, area = 4, mask = [[1, 1], [1, 1]]\<rparr>]"

definition ds_zero_area :: dataset where
  "ds_zero_area = (init_dataset 100 100 blobs_zero_area)
      \<lparr>labels := Some labels_demo, frequencies := Some [4 / 10000]\<rparr>"

section \<open>Radius field\<close>

text \<open>
  Multiplying and adding a Python float to a numpy float, as the rescaling of
  \<open>compute_radius_map\<close> does on every element of the array.
\<close>

fun np_mul :: "npfloat \<Rightarrow> real \<Rightarrow> npfloat" where
  "np_mul (Fin x) c = Fin (x * c)"
| "np_mul NaN c = NaN"
| "np_mul PInf c = (if 0 < c then PInf else if c < 0 then NInf else NaN)"
| "np_mul NInf c = (if 0 < c then NInf else if c < 0 then PInf else NaN)"

fun np_add :: "npfloat \<Rightarrow> real \<Rightarrow> npfloat" where
  "np_add (Fin x) c = Fin (x + c)"
| "np_add v c = v"

text \<open>
  The table of \<open>compute_radius_map\<close>: the raw value of index 0 is the sum of the
  frequencies, that of index \<open>i + 1\<close> is \<open>frequencies[i]\<close>; the table is shifted
  by its minimum, divided by \<open>f_max - f_min\<close> and rescaled.  The division is
  numpy's and has no guard.
\<close>

definition radius_values :: "real list \<Rightarrow> real \<Rightarrow> real \<Rightarrow> npfloat list" where
  "radius_values freqs radius_min radius_max =
     (let radius = sum_list freqs # freqs;
          f_min = Min (set radius);
          f_max = Max (set radius)
      in map (\<lambda>r. np_add (np_mul (np_div (r - f_min) (f_max - f_min)) (radius_max - radius_min))
                       radius_min) radius)"



section \<open>Importance sampling\<close>

text \<open>
  The source of random numbers is a parameter: a stream of naturals \<open>gen\<close> and the
  position \<open>pos\<close> of the next one.  \<open>rnd.randint(a, b)\<close> consumes one number and
  maps it into \<open>[a, b]\<close>; it raises \<open>ValueError\<close> on an empty range.
\<close>

record rng =
  gen :: "nat \<Rightarrow> nat"
  pos :: nat

definition randint :: "int \<Rightarrow> int \<Rightarrow> rng \<Rightarrow> error + (int \<times> rng)" where
  "randint a b g =
     (if b < a then Inl ValueError
      else Inr (a + int (gen g (pos g) mod nat (b - a + 1)), g\<lparr>pos := pos g + 1\<rparr>))"

text \<open>
  Indexing a numpy array with integers: a negative index counts from the end, an
  index out of range raises \<open>IndexError\<close>.
\<close>

definition np_index :: "'a list \<Rightarrow> int \<Rightarrow> error + 'a" where
  "np_index xs i =
     (let n = int (length xs)
      in if - n \<le> i \<and> i < n then Inr (xs ! nat (if i < 0 then i + n else i))
         else Inl IndexError)"

definition np_index2 :: "'a list list \<Rightarrow> int \<Rightarrow> int \<Rightarrow> error + 'a" where
  "np_index2 grid r c =
     (case np_index grid r of Inl e \<Rightarrow> Inl e | Inr row \<Rightarrow> np_index row c)"

text \<open>
  \<open>self.radius_map[sample[1], sample[0]]\<close>.  The radius field is the smoothed
  map, a grid of numpy floats; subscripting it raises \<open>TypeError\<close> while it is
  \<open>None\<close>.
\<close>

definition radius_at :: "dataset \<Rightarrow> int \<times> int \<Rightarrow> error + npfloat" where
  "radius_at ds sample =
     (case radius_map ds of
        None \<Rightarrow> Inl TypeError
      | Some rm \<Rightarrow> np_index2 rm (snd sample) (fst sample))"

text \<open>The distance \<open>d\<close> between an accepted sample and the candidate.\<close>

definition distance :: "int \<times> int \<Rightarrow> int \<times> int \<Rightarrow> real" where
  "distance sample p =
     sqrt (of_int ((fst sample - fst p) * (fst sample - fst p)
                 + (snd sample - snd p) * (snd sample - snd p)))"

text \<open>
  The test \<open>d < (r1 + r2) / 2.0\<close> on a Python float \<open>d\<close> and two values of the
  radius field; it is false whenever the average is NaN.
\<close>

definition closer :: "npfloat \<Rightarrow> npfloat \<Rightarrow> real \<Rightarrow> bool" where
  "closer r1 r2 d = np_less (Fin d) (np_divide (np_plus r1 r2) (Fin 2))"

text \<open>
  The inner loop over \<open>current_samples\<close>: the flag becomes \<open>False\<close>, and the loop
  breaks, at the first sample for which the test is true.
\<close>

fun check_samples :: "dataset \<Rightarrow> npfloat \<Rightarrow> int \<times> int \<Rightarrow> (int \<times> int) list \<Rightarrow> error + bool" where
  "check_samples ds r1 p [] = Inr True"
| "check_samples ds r1 p (sample # current_samples) =
     (case radius_at ds sample of
        Inl e \<Rightarrow> Inl e
      | Inr r2 \<Rightarrow>
          if closer r1 r2 (distance sample p) then Inr False
          else check_samples ds r1 p current_samples)"

text \<open>
  The state of a sampling run: the accepted samples and the random source.  The
  tail shared by both samplers reads the radius of the candidate, checks it
  against all current samples and appends it when the flag is still \<open>True\<close>.
\<close>

type_synonym sampler_state = "(int \<times> int) list \<times> rng"

definition try_point :: "dataset \<Rightarrow> int \<times> int \<Rightarrow> sampler_state \<Rightarrow> error + sampler_state" where
  "try_point ds p s =
     (case radius_at ds p of
        Inl e \<Rightarrow> Inl e
      | Inr r1 \<Rightarrow>
          (case check_samples ds r1 p (fst s) of
             Inl e \<Rightarrow> Inl e
           | Inr flag \<Rightarrow> Inr (if flag then (fst s @ [p], snd s) else s)))"

text \<open>A \<open>for\<close> loop over a list, threading the state and stopping at the first error.\<close>

fun for_each :: "('a \<Rightarrow> 's \<Rightarrow> error + 's) \<Rightarrow> 'a list \<Rightarrow> 's \<Rightarrow> error + 's" where
  "for_each body [] s = Inr s"
| "for_each body (x # xs) s =
     (case body x s of Inl e \<Rightarrow> Inl e | Inr s' \<Rightarrow> for_each body xs s')"

text \<open>
  \<open>importanceSamplingBlob\<close>, called with the default \<open>centroid=False\<close> as its only
  caller does: 30 attempts, each drawing a point of the entity's box and trying
  it when the mask is 1 there.
\<close>

definition blob_attempt :: "dataset \<Rightarrow> blob \<Rightarrow> sampler_state \<Rightarrow> error + sampler_state" where
  "blob_attempt ds blob s =
     (let offset_x = bleft (bbox blob);
          offset_y = btop (bbox blob);
          w = bwidth (bbox blob);
          h = bheight (bbox blob)
      in case randint 1 (w - 1) (snd s) of
           Inl e \<Rightarrow> Inl e
         | Inr (px, g1) \<Rightarrow>
             (case randint 1 (h - 1) g1 of
                Inl e \<Rightarrow> Inl e
              | Inr (py, g2) \<Rightarrow>
                  (case np_index2 (mask blob) py px of
                     Inl e \<Rightarrow> Inl e
                   | Inr m \<Rightarrow>
                       if m = 1 then try_point ds (px + offset_x, py + offset_y) (fst s, g2)
                       else Inr (fst s, g2))))"

definition importanceSamplingBlob :: "dataset \<Rightarrow> blob \<Rightarrow> sampler_state \<Rightarrow> error + sampler_state" where
  "importanceSamplingBlob ds blob s = for_each (\<lambda>i. blob_attempt ds blob) (py_range 30) s"

text \<open>\<open>importanceSamplingSubArea\<close>: 30 attempts in the given box.\<close>

definition subarea_attempt :: "dataset \<Rightarrow> int box \<Rightarrow> sampler_state \<Rightarrow> error + sampler_state" where
  "subarea_attempt ds area_box s =
     (let top = btop area_box;
          left = bleft area_box;
          w = bwidth area_box;
          h = bheight area_box
      in case randint left (left + w - 1) (snd s) of
           Inl e \<Rightarrow> Inl e
         | Inr (px, g1) \<Rightarrow>
             (case randint top (top + h - 1) g1 of
                Inl e \<Rightarrow> Inl e
              | Inr (py, g2) \<Rightarrow> try_point ds (px, py) (fst s, g2)))"

definition importanceSamplingSubArea :: "dataset \<Rightarrow> int box \<Rightarrow> sampler_state \<Rightarrow> error + sampler_state" where
  "importanceSamplingSubArea ds area_box s =
     for_each (\<lambda>i. subarea_attempt ds area_box) (py_range 30) s"

text \<open>
  \<open>sampleAreaImportanceSampling\<close>: first the entities of the listed classes, class
  by class, then the cells of the coarse grid with the edge correction of the
  source.
\<close>

definition rare_classes :: "string list" where
  "rare_classes =
     [''Montipora_crust/patula'', ''Pocillopora_eydouxi'', ''Pocillopora'', ''Porite_massive'',
      ''Montipora_plate/flabellata'']"

definition sample_rare_blobs :: "dataset \<Rightarrow> sampler_state \<Rightarrow> error + sampler_state" where
  "sample_rare_blobs ds s =
     for_each (\<lambda>c. for_each (\<lambda>blob s'. if class_name blob = c
                                          then importanceSamplingBlob ds blob s' else Inr s')
                      (blobs ds))
       rare_classes s"




text \<open>
  Two points are apart when both radii can be read and the test of the source is
  false for them; a list of samples is separated when any two of them are apart.
  The radius field is finite when it holds neither NaN nor an infinity.
\<close>

definition apart :: "dataset \<Rightarrow> int \<times> int \<Rightarrow> int \<times> int \<Rightarrow> bool" where
  "apart ds q p =
     (\<exists>r1 r2. radius_at ds p = Inr r1 \<and> radius_at ds q = Inr r2 \<and> \<not> closer r1 r2 (distance q p))"

fun is_fin :: "npfloat \<Rightarrow> bool" where
  "is_fin (Fin x) = True"
| "is_fin v = False"

definition finite_field :: "dataset \<Rightarrow> bool" where
  "finite_field ds =
     (case radius_map ds of None \<Rightarrow> True | Some rm \<Rightarrow> list_all (list_all is_fin) rm)"


definition in_mask :: "blob \<Rightarrow> int \<times> int \<Rightarrow> bool" where
  "in_mask blob p =
     (np_index2 (mask blob) (snd p - btop (bbox blob)) (fst p - bleft (bbox blob)) = Inr 1)"

definition rare_entities :: "dataset \<Rightarrow> blob list" where
  "rare_entities ds = concat (map (\<lambda>c. filter (\<lambda>blob. class_name blob = c) (blobs ds)) rare_classes)"

definition attempts_inv :: "dataset \<Rightarrow> blob \<Rightarrow> sampler_state \<Rightarrow> nat \<Rightarrow> sampler_state \<Rightarrow> bool" where
  "attempts_inv ds blob s0 n s =
     (pos (snd s) = pos (snd s0) + 2 * n \<and>
      (\<exists>new. fst s = fst s0 @ new \<and> length new \<le> n \<and>
         (\<forall>k<length new. in_mask blob (new ! k) \<and>
                          (\<forall>q\<in>set (fst s0 @ take k new). apart ds q (new ! k)))))"

text \<open>
  Example data: a radius field of constant 10 on a map of 1000 by 1000, an entity
  with a full mask and one whose mask has a single pixel, and two random sources;
  and the field a single target class gives, NaN everywhere, with a constant
  random source.
\<close>

definition blob_poc :: blob where
  "blob_poc = \<lparr>class_name = ''Pocillopora'', bbox = mk_box 5 5 3 3, area = 9,
               mask = [[1, 1, 1], [1, 1, 1], [1, 1, 1]]\<rparr>"

definition blob_hole :: blob where
  "blob_hole = \<lparr>class_name = ''Pocillopora'', bbox = mk_box 5 5 3 3, area = 1,
                mask = [[0, 0, 0], [0, 0, 0], [0, 0, 1]]\<rparr>"

definition ds_sampling :: dataset where
  "ds_sampling = (init_dataset 1000 1000 [blob_poc])
      \<lparr>radius_map := Some (replicate 1000 (replicate 1000 (Fin 10)))\<rparr>"

definition g_demo :: rng where
  "g_demo = \<lparr>gen = (\<lambda>n. if n < 60 then 0 else 1000), pos = 0\<rparr>"

definition g_late :: rng where
  "g_late = \<lparr>gen = (\<lambda>n. if n < 60 then 0 else 1), pos = 0\<rparr>"




section \<open>Properties\<close>

subsection \<open>Containment\<close>

text \<open>
  C9.  \<open>isFullyInsideBBox\<close> is the strict containment test
  \<open>top1 \<ge> top2 \<and> left1 \<ge> left2 \<and> top1 + h1 < top2 + h2 \<and> left1 + w1 < left2 + w2\<close>;
  hence no box is fully inside itself, while every box is fully inside the box
  expanded by any \<open>e > 0\<close> (under both readings of the expansion).
\<close>

theorem isFullyInside_strict:
  fixes A B :: "'a::linordered_idom box" and e :: 'a
  shows "(isFullyInsideBBox A B \<longleftrightarrow>
            btop A \<ge> btop B \<and> bleft A \<ge> bleft B \<and>
            btop A + bheight A < btop B + bheight B \<and>
            bleft A + bwidth A < bleft B + bwidth B)
         \<and> \<not> isFullyInsideBBox A A
         \<and> (0 < e \<longrightarrow> isFullyInsideBBox A (expand A e) \<and> isFullyInsideBBox A (expand_extent A e))"
  by (auto simp: isFullyInsideBBox_def expand_def expand_extent_def mk_box_def Let_def)

theorem isFullyInside_strict_witness:
  "(0::int) < 1
   \<and> \<not> isFullyInsideBBox (mk_box 3 4 10 20 :: int box) (mk_box 3 4 10 20)
   \<and> isFullyInsideBBox (mk_box 3 4 10 20 :: int box) (expand (mk_box 3 4 10 20) 1)
   \<and> isFullyInsideBBox (mk_box 3 4 10 20 :: int box) (expand_extent (mk_box 3 4 10 20) 1)"
  using isFullyInside_strict [of "mk_box 3 4 10 20 :: int box" "mk_box 3 4 10 20" 1]
  by simp

subsection \<open>Uniform grid sampling\<close>

lemma concat_grid_nth:
  "i < length rs \<Longrightarrow> j < length cs \<Longrightarrow>
   concat (map (\<lambda>r. map (f r) cs) rs) ! (i * length cs + j) = f (rs ! i) (cs ! j)"
proof (induction rs arbitrary: i)
  case Nil
  then show ?case by simp
next
  case (Cons r rs)
  show ?case
  proof (cases i)
    case 0
    with Cons.prems show ?thesis by (simp add: nth_append)
  next
    case (Suc k)
    with Cons.prems have k: "k < length rs" by simp
    have "concat (map (\<lambda>r. map (f r) cs) (r # rs)) ! (i * length cs + j)
          = concat (map (\<lambda>r. map (f r) cs) rs) ! (k * length cs + j)"
      using Suc by (simp add: nth_append)
    also have "\<dots> = f (rs ! k) (cs ! j)" using Cons.IH [OF k Cons.prems(2)] .
    finally show ?thesis using Suc by simp
  qed
qed

lemma concat_grid_length:
  "length (concat (map (\<lambda>r. map (f r) cs) rs)) = length rs * length cs"
  by (induction rs) simp_all

lemma py_int_nonneg: "0 \<le> x \<Longrightarrow> py_int x = \<lfloor>x\<rfloor>"
  by (simp add: py_int_def)

text \<open>
  C7.  For a positive step and a region of non-negative extent,
  \<open>sampleAreaUniformly\<close> returns exactly \<open>rows * cols\<close> centres, where
  \<open>cols = 1 + \<lfloor>width / step\<rfloor>\<close> and \<open>rows = 1 + \<lfloor>height / step\<close>\<open>\<rfloor>\<close>.  The
  centre of row \<open>r\<close> and column \<open>c\<close> stands at index \<open>r * cols + c\<close>; its
  coordinates are the region's corner, plus half of the slack
  \<open>extent - count * step\<close> (truncated to an integer), minus the centring offset
  \<open>(tile_size - crop_size) / 2\<close> (truncated to an integer), plus \<open>c * step\<close>
  (respectively \<open>r * step\<close>), plus half a tile.  The result is a function of the
  inputs alone.
\<close>

theorem sampleAreaUniformly_grid:
  assumes step: "0 < step" and W: "0 \<le> bwidth a" and H: "0 \<le> bheight a"
  shows "\<exists>samples.
           sampleAreaUniformly ds a tile_size step = Inr samples \<and>
           int (length samples) = (1 + \<lfloor>bheight a / step\<rfloor>) * (1 + \<lfloor>bwidth a / step\<rfloor>) \<and>
           (\<forall>r c. r < nat (1 + \<lfloor>bheight a / step\<rfloor>) \<and> c < nat (1 + \<lfloor>bwidth a / step\<rfloor>) \<longrightarrow>
              samples ! (r * nat (1 + \<lfloor>bwidth a / step\<rfloor>) + c) =
                (bleft a
                   + of_int (py_int ((bwidth a - of_int (1 + \<lfloor>bwidth a / step\<rfloor>) * step) / 2))
                   - of_int (py_int ((tile_size - of_int (crop_size ds)) / 2))
                   + of_nat c * step + tile_size / 2,
                 btop a
                   + of_int (py_int ((bheight a - of_int (1 + \<lfloor>bheight a / step\<rfloor>) * step) / 2))
                   - of_int (py_int ((tile_size - of_int (crop_size ds)) / 2))
                   + of_nat r * step + tile_size / 2))"
proof -
  define cols where "cols = 1 + \<lfloor>bwidth a / step\<rfloor>"
  define rows where "rows = 1 + \<lfloor>bheight a / step\<rfloor>"
  have qW: "0 \<le> bwidth a / step" and qH: "0 \<le> bheight a / step"
    using step W H by simp_all
  have pc: "1 + py_int (bwidth a / step) = cols" and pr: "1 + py_int (bheight a / step) = rows"
    using qW qH by (simp_all add: py_int_nonneg cols_def rows_def)
  have cols0: "0 \<le> cols" and rows0: "0 \<le> rows"
    using qW qH by (simp_all add: cols_def rows_def)
  define f where "f = (\<lambda>(row::int) (col::int).
      (bleft a + of_int (py_int ((bwidth a - of_int cols * step) / 2))
         - of_int (py_int ((tile_size - of_int (crop_size ds)) / 2))
         + of_int col * step + tile_size / 2,
       btop a + of_int (py_int ((bheight a - of_int rows * step) / 2))
         - of_int (py_int ((tile_size - of_int (crop_size ds)) / 2))
         + of_int row * step + tile_size / 2))"
  define samples where "samples = concat (map (\<lambda>r. map (f r) (py_range cols)) (py_range rows))"
  have run: "sampleAreaUniformly ds a tile_size step = Inr samples"
    unfolding sampleAreaUniformly_def Let_def pc pr samples_def f_def using step by simp
  have "length samples = length (py_range rows) * length (py_range cols)"
    unfolding samples_def by (rule concat_grid_length)
  then have len: "length samples = nat rows * nat cols"
    by (simp add: py_range_def)
  have len': "int (length samples) = rows * cols"
    using cols0 rows0 by (simp add: len nat_mult_distrib)
  have nth: "samples ! (r * nat cols + c) = f (int r) (int c)"
    if "r < nat rows" "c < nat cols" for r c
  proof -
    have "samples ! (r * length (py_range cols) + c) = f (py_range rows ! r) (py_range cols ! c)"
      unfolding samples_def using that by (intro concat_grid_nth) (simp_all add: py_range_def)
    then show ?thesis using that by (simp add: py_range_def)
  qed
  show ?thesis
    apply (rule exI [of _ samples])
    using run len' nth by (simp add: cols_def rows_def f_def)
qed

theorem sampleAreaUniformly_grid_witness:
  "(0::real) < 256 \<and> (0::real) \<le> bwidth (mk_box 0 0 600 300 :: real box)
   \<and> (0::real) \<le> bheight (mk_box 0 0 600 300 :: real box)
   \<and> (\<exists>samples. sampleAreaUniformly (init_dataset 1000 1000 []) (mk_box 0 0 600 300) 512 256 = Inr samples
        \<and> samples = [(172, 150), (428, 150), (684, 150), (172, 406), (428, 406), (684, 406)]
        \<and> int (length samples) = (1 + \<lfloor>(300 :: real) / 256\<rfloor>) * (1 + \<lfloor>(600 :: real) / 256\<rfloor>)
        \<and> samples ! (1 * nat (1 + \<lfloor>(600 :: real) / 256\<rfloor>) + 2) = (684, 406))"
proof -
  have c: "\<lceil>- (1 / 2 :: real)\<rceil> = 0" by (rule ceiling_unique) simp_all
  have run: "sampleAreaUniformly (init_dataset 1000 1000 []) (mk_box 0 0 600 300) 512 256
               = Inr [(172, 150), (428, 150), (684, 150), (172, 406), (428, 406), (684, 406)]"
    by (simp add: mk_box_def sampleAreaUniformly_def init_dataset_def py_int_def py_range_def
          Let_def numeral_2_eq_2 numeral_3_eq_3 c)
  show ?thesis
    using sampleAreaUniformly_grid [of 256 "mk_box 0 0 600 300" "init_dataset 1000 1000 []" 512]
    by (simp add: run) (simp add: mk_box_def)
qed

subsection \<open>Cleaning pass\<close>

lemma cleanTrainingTiles_filter:
  "cleanTrainingTiles ds tiles =
     filter (\<lambda>t. bbox_intersection (tile_bbox ds t) (val_area ds) < 10 \<and>
                 bbox_intersection (tile_bbox ds t) (test_area ds) < 10) tiles"
  by (induction tiles) (simp_all add: Let_def)

text \<open>
  C8, as stated, fails on the boundary: a tile whose padded box meets the
  validation region in exactly 10 square pixels is dropped, although it does not
  intersect it by more than 10.  Here the tile \<open>(361, 0)\<close> has the padded box
  \<open>[-261.5, 99.5, 523, 523]\<close>, which meets the region \<open>[0, 0, 100, 20]\<close> in a
  strip of 0.5 by 20 pixels.
\<close>

theorem cleanTrainingTiles_boundary_counterexample:
  "cleanTrainingTiles ds_clean [(361, 0)] = []
   \<and> bbox_intersection (tile_bbox ds_clean (361, 0)) (val_area ds_clean) = 10
   \<and> bbox_intersection (tile_bbox ds_clean (361, 0)) (test_area ds_clean) = 0"
  by (simp add: ds_clean_def init_dataset_def tile_bbox_def bbox_intersection_def mk_box_def Let_def)

text \<open>
  C8, amended.  The cleaning pass keeps, in order, exactly the tiles whose
  \<open>(crop_size + 10)\<close>-sided box centred on the tile intersects both the
  validation region and the test region by less than 10 square pixels; it drops
  exactly those that intersect one of them by 10 square pixels or more.  A tile
  whose padded box overlaps both regions by exactly 0 is kept.
\<close>

theorem cleanTrainingTiles_threshold:
  "cleanTrainingTiles ds tiles =
     filter (\<lambda>t. \<not> (10 \<le> bbox_intersection (tile_bbox ds t) (val_area ds) \<or>
                     10 \<le> bbox_intersection (tile_bbox ds t) (test_area ds))) tiles
   \<and> (t \<in> set tiles \<and> bbox_intersection (tile_bbox ds t) (val_area ds) = 0
        \<and> bbox_intersection (tile_bbox ds t) (test_area ds) = 0
       \<longrightarrow> t \<in> set (cleanTrainingTiles ds tiles))"
proof -
  have "(\<lambda>t. bbox_intersection (tile_bbox ds t) (val_area ds) < 10 \<and>
             bbox_intersection (tile_bbox ds t) (test_area ds) < 10)
        = (\<lambda>t. \<not> (10 \<le> bbox_intersection (tile_bbox ds t) (val_area ds) \<or>
                   10 \<le> bbox_intersection (tile_bbox ds t) (test_area ds)))"
    by (auto simp: fun_eq_iff)
  then show ?thesis
    by (simp add: cleanTrainingTiles_filter)
qed

theorem cleanTrainingTiles_threshold_witness:
  "(2000, 2000) \<in> set [(50, 10), (2000 :: real, 2000 :: real)]
   \<and> bbox_intersection (tile_bbox ds_clean (2000, 2000)) (val_area ds_clean) = 0
   \<and> bbox_intersection (tile_bbox ds_clean (2000, 2000)) (test_area ds_clean) = 0
   \<and> cleanTrainingTiles ds_clean [(50, 10), (2000, 2000)] = [(2000, 2000)]"
  using cleanTrainingTiles_threshold [of ds_clean "[(50, 10), (2000, 2000)]" "(2000, 2000)"]
  by (simp add: ds_clean_def init_dataset_def tile_bbox_def bbox_intersection_def mk_box_def Let_def)

subsection \<open>Region search\<close>

lemma find_test_area_Inr:
  "find_test_area v xs = Inr t \<Longrightarrow>
     \<exists>i<length xs. t = fst (xs ! i) \<and> bbox_intersection v t < 10 \<and>
        (\<forall>j<i. \<not> bbox_intersection v (fst (xs ! j)) < 10)"
proof (induction xs)
  case Nil
  then show ?case by simp
next
  case (Cons x xs)
  show ?case
  proof (cases "bbox_intersection v (fst x) < 10")
    case True
    with Cons.prems have "t = fst x" by simp
    with True show ?thesis by (intro exI [of _ 0]) simp
  next
    case False
    with Cons.prems have "find_test_area v xs = Inr t" by simp
    from Cons.IH [OF this] obtain i where i: "i < length xs" "t = fst (xs ! i)"
      "bbox_intersection v t < 10" "\<forall>j<i. \<not> bbox_intersection v (fst (xs ! j)) < 10"
      by blast
    have "\<forall>j<Suc i. \<not> bbox_intersection v (fst ((x # xs) ! j)) < 10"
      using False i(4) by (auto simp: less_Suc_eq_0_disj)
    with i show ?thesis by (intro exI [of _ "Suc i"]) simp
  qed
qed

lemma find_test_area_Inl:
  "find_test_area v xs = Inl e \<longleftrightarrow>
     e = UnboundLocalError \<and> (\<forall>x\<in>set xs. \<not> bbox_intersection v (fst x) < 10)"
  by (induction xs) auto

lemma phase2_area_info_Inr:
  "phase2_area_info trials = Inr info \<Longrightarrow>
     info = map (\<lambda>(b, s). (b, s, sum_list s / of_nat (length s))) trials \<and>
     (\<forall>(b, s)\<in>set trials. s \<noteq> [])"
  by (induction trials arbitrary: info rule: phase2_area_info.induct)
     (auto split: if_splits sum.splits)



lemma findAreas_Inr_sorted:
  assumes "findAreas trials = Inr (val, test)"
  shows "\<exists>x xs. sort_key aggregated_score
                  (map (\<lambda>(b, s). (b, s, sum_list s / of_nat (length s))) trials) = x # xs
               \<and> val = fst x \<and> find_test_area val (x # xs) = Inr test"
proof -
  from assms obtain info where info: "phase2_area_info trials = Inr info"
    by (auto simp: findAreas_def split: sum.splits)
  from assms info obtain x xs where s: "sort_key aggregated_score info = x # xs"
    by (auto simp: findAreas_def split: sum.splits list.splits)
  from assms info s have "val = fst x" "find_test_area val (x # xs) = Inr test"
    by (auto simp: findAreas_def split: sum.splits list.splits)
  moreover have "info = map (\<lambda>(b, s). (b, s, sum_list s / of_nat (length s))) trials"
    using phase2_area_info_Inr [OF info] by simp
  ultimately show ?thesis using s by simp
qed

lemma phase2_area_info_ok:
  "\<forall>x\<in>set trials. snd x \<noteq> [] \<Longrightarrow>
   phase2_area_info trials = Inr (map (\<lambda>(b, s). (b, s, sum_list s / of_nat (length s))) trials)"
  by (induction trials rule: phase2_area_info.induct) auto

lemma findAreas_exhausted:
  assumes ne: "trials \<noteq> []" and sc: "\<forall>x\<in>set trials. snd x \<noteq> []"
    and ov: "\<forall>x\<in>set trials. \<forall>y\<in>set trials. \<not> bbox_intersection (fst x) (fst y) < 10"
  shows "findAreas trials = Inl UnboundLocalError"
proof -
  define info where "info = map (\<lambda>(b, s). (b, s, sum_list s / of_nat (length s))) trials"
  define s where "s = sort_key aggregated_score info"
  have p: "phase2_area_info trials = Inr info"
    using phase2_area_info_ok [OF sc] by (simp add: info_def)
  have "length s = length trials" by (simp add: s_def info_def)
  then have "s \<noteq> []" using ne by auto
  then obtain x xs where xs: "s = x # xs" by (cases s) auto
  have set: "fst ` set s = fst ` set trials"
    by (simp add: s_def info_def image_image case_prod_unfold)
  have "\<forall>y\<in>set s. \<not> bbox_intersection (fst x) (fst y) < 10"
  proof
    fix y assume "y \<in> set s"
    then have "fst y \<in> fst ` set trials" using set by blast
    then obtain y' where y': "y' \<in> set trials" "fst y' = fst y" by force
    have "fst x \<in> fst ` set trials" using set xs by force
    then obtain x' where x': "x' \<in> set trials" "fst x' = fst x" by force
    from ov x'(1) y'(1) have "\<not> bbox_intersection (fst x') (fst y') < 10" by blast
    then show "\<not> bbox_intersection (fst x) (fst y) < 10" by (simp add: x' y')
  qed
  then have "find_test_area (fst x) s = Inl UnboundLocalError"
    by (simp add: find_test_area_Inl)
  then show ?thesis
    using p xs by (simp add: findAreas_def s_def [symmetric])
qed

lemma overlapping_trials_length: "length (overlapping_trials n) = n"
  by (simp add: overlapping_trials_def)

lemma overlapping_trials_exhausted:
  assumes "0 < n"
  shows "findAreas (overlapping_trials n) = Inl UnboundLocalError"
proof (rule findAreas_exhausted)
  have "length (overlapping_trials n) = n" by (simp add: overlapping_trials_def)
  then show "overlapping_trials n \<noteq> []" using assms by auto
  show "\<forall>x\<in>set (overlapping_trials n). snd x \<noteq> []" by (auto simp: overlapping_trials_def)
  show "\<forall>x\<in>set (overlapping_trials n). \<forall>y\<in>set (overlapping_trials n).
          \<not> bbox_intersection (fst x) (fst y) < 10"
  proof (intro ballI)
    fix x y assume "x \<in> set (overlapping_trials n)" "y \<in> set (overlapping_trials n)"
    then obtain i j :: nat where
      x: "fst x = mk_box (int i mod 20) (int i mod 20) 38 37" and
      y: "fst y = mk_box (int j mod 20) (int j mod 20) 38 37"
      by (auto simp: overlapping_trials_def)
    define a where "a = int i mod 20"
    define b where "b = int j mod 20"
    have ab: "0 \<le> a" "a < 20" "0 \<le> b" "b < 20" by (simp_all add: a_def b_def)
    define xl where "xl = max a b"
    define xr where "xr = min (a + 38) (b + 38)"
    define yb where "yb = min (a + 37) (b + 37)"
    have w: "19 \<le> xr - xl" using ab by (auto simp: xl_def xr_def)
    have h: "18 \<le> yb - xl" using ab by (auto simp: xl_def yb_def)
    have "19 * 18 \<le> (xr - xl) * (yb - xl)"
      using w h by (intro mult_mono) auto
    then have big: "\<not> (xr - xl) * (yb - xl) < 10" by simp
    have "bbox_intersection (fst x) (fst y)
            = (if xr < xl \<or> yb < xl then 0 else (xr - xl) * (yb - xl))"
      unfolding x y bbox_intersection_def mk_box_def Let_def xl_def xr_def yb_def a_def b_def
      by simp
    moreover have "\<not> xr < xl" "\<not> yb < xl" using w h by auto
    ultimately show "\<not> bbox_intersection (fst x) (fst y) < 10"
      using big by simp
  qed
qed




text \<open>
  C1, as stated, fails: when every candidate meets the validation region in 10
  square pixels or more, the loop ends with \<open>test_area\<close> unassigned and the call
  ends in the interpreter's \<open>UnboundLocalError\<close>.  No failure condition of the
  search's own is reported; the source defines none.  Here all 5000 candidates
  are regions of 38 by 37 pixels in the same corner of a map of 100 by 100.
\<close>

theorem findAreas_exhausted_counterexample:
  "findAreas trials_exhausted = Inl UnboundLocalError \<and> length trials_exhausted = 5000"
  unfolding trials_exhausted_def
  by (simp add: overlapping_trials_exhausted overlapping_trials_length)

text \<open>
  C1, amended.  \<open>findAreas\<close> never returns an overlapping pair: whenever it returns
  a validation and a test region, both are regions of candidates and their
  intersection area is below 10; so it returns a pair only if some candidate is
  below the threshold.
\<close>

theorem findAreas_disjoint_result:
  assumes "findAreas trials = Inr (val, test)"
  shows "bbox_intersection val test < 10
         \<and> (\<exists>x\<in>set trials. fst x = val)
         \<and> (\<exists>x\<in>set trials. fst x = test \<and> bbox_intersection val (fst x) < 10)"
proof -
  define info where "info = map (\<lambda>(b, s). (b, s, sum_list s / of_nat (length s))) trials"
  from findAreas_Inr_sorted [OF assms] obtain x xs where
    s: "sort_key aggregated_score info = x # xs" and v: "val = fst x"
    and ft: "find_test_area val (x # xs) = Inr test"
    unfolding info_def by blast
  from find_test_area_Inr [OF ft] obtain i where
    i: "i < length (x # xs)" "test = fst ((x # xs) ! i)" "bbox_intersection val test < 10"
    by blast
  define ss where "ss = x # xs"
  have "set ss = set info" using s by (metis set_sort ss_def)
  then have "fst ` set ss = fst ` set info" by (rule arg_cong)
  also have "\<dots> = fst ` set trials"
    by (simp only: info_def) (simp add: image_image case_prod_unfold)
  finally have sub: "fst ` set ss = fst ` set trials" .
  have "x \<in> set ss" by (simp add: ss_def)
  then have "val \<in> fst ` set ss" unfolding v by (rule imageI)
  then have "val \<in> fst ` set trials" unfolding sub .
  then have a: "\<exists>y\<in>set trials. fst y = val" by force
  have "ss ! i \<in> set ss" using i(1) unfolding ss_def by (rule nth_mem)
  then have "fst (ss ! i) \<in> fst ` set ss" by (rule imageI)
  then have "fst (ss ! i) \<in> fst ` set trials" unfolding sub .
  then have "test \<in> fst ` set trials" unfolding i(2) ss_def .
  then have b: "\<exists>y\<in>set trials. fst y = test" by force
  from a b i(3) show ?thesis by blast
qed

theorem findAreas_disjoint_result_witness:
  "findAreas trials_demo = Inr (mk_box 10 10 38 37, mk_box 50 50 38 37)
   \<and> bbox_intersection (mk_box 10 10 38 37) (mk_box 50 50 38 37 :: int box) < 10"
proof -
  have h: "findAreas trials_demo = Inr (mk_box 10 10 38 37, mk_box 50 50 38 37)"
    by (simp add: findAreas_def trials_demo_def aggregated_score_def bbox_intersection_def
          mk_box_def Let_def)
  show ?thesis using h findAreas_disjoint_result [OF h] by blast
qed

subsection \<open>Landscape metrics\<close>

lemma collect_areas_Inr:
  "collect_areas a c bs = Inr areas \<Longrightarrow>
   areas = map area (filter (\<lambda>b. class_name b = c \<and>
        real_of_int (bbox_intersection a (bbox b))
          / real_of_int (bwidth (bbox b) * bheight (bbox b)) > 3 / 4) bs)"
  by (induction bs arbitrary: areas)
     (auto simp: checkBlobInside_def Let_def split: if_splits sum.splits)

lemma calculateMetrics_loop_Inr:
  assumes "calculateMetrics_loop ds a i cs = Inr (number, PSCV)"
  shows "\<exists>fs. frequencies ds = (if cs = [] then frequencies ds else Some fs) \<and>
          length number = length cs \<and> length PSCV = length cs \<and>
          (\<forall>k<length cs.
             i + k < length fs \<and>
             (\<exists>areas. class_areas ds a (fs ! (i + k)) (cs ! k) = Inr areas
                \<and> number ! k = length areas \<and> PSCV ! k = pscv_of areas))"
  using assms
proof (induction cs arbitrary: i number PSCV)
  case Nil
  then show ?case by simp
next
  case (Cons c cs)
  from Cons.prems obtain fs where fs: "frequencies ds = Some fs" and i: "i < length fs"
    by (auto split: option.splits if_splits)
  from Cons.prems fs i obtain areas number' PSCV' where
    ar: "class_areas ds a (fs ! i) c = Inr areas" and
    rec: "calculateMetrics_loop ds a (Suc i) cs = Inr (number', PSCV')" and
    out: "number = length areas # number'" "PSCV = pscv_of areas # PSCV'"
    by (auto split: sum.splits if_splits)
  from Cons.IH [OF rec] obtain fs' where
    ih: "frequencies ds = (if cs = [] then frequencies ds else Some fs')"
        "length number' = length cs" "length PSCV' = length cs"
        "\<forall>k<length cs. Suc i + k < length fs' \<and>
             (\<exists>areas. class_areas ds a (fs' ! (Suc i + k)) (cs ! k) = Inr areas
                \<and> number' ! k = length areas \<and> PSCV' ! k = pscv_of areas)"
    by blast
  have ih4: "\<forall>k<length cs. Suc i + k < length fs \<and>
             (\<exists>areas. class_areas ds a (fs ! (Suc i + k)) (cs ! k) = Inr areas
                \<and> number' ! k = length areas \<and> PSCV' ! k = pscv_of areas)"
  proof (cases "cs = []")
    case True then show ?thesis by simp
  next
    case False
    with ih(1) fs have "fs' = fs" by simp
    with ih(4) show ?thesis by simp
  qed
  have "\<forall>k<length (c # cs).
             i + k < length fs \<and>
             (\<exists>areas. class_areas ds a (fs ! (i + k)) ((c # cs) ! k) = Inr areas
                \<and> number ! k = length areas \<and> PSCV ! k = pscv_of areas)"
  proof (intro allI impI)
    fix k assume k: "k < length (c # cs)"
    show "i + k < length fs \<and>
             (\<exists>areas. class_areas ds a (fs ! (i + k)) ((c # cs) ! k) = Inr areas
                \<and> number ! k = length areas \<and> PSCV ! k = pscv_of areas)"
    proof (cases k)
      case 0
      then show ?thesis using i ar out by simp
    next
      case (Suc k')
      with k have "k' < length cs" by simp
      with ih4 Suc out show ?thesis by simp
    qed
  qed
  then show ?case using fs ih(2,3) out by simp
qed


lemma class_areas_Inr:
  "class_areas ds a f c = Inr areas \<Longrightarrow>
     areas = (if f > 0 then counted_areas ds a c else [])"
  by (auto simp: class_areas_def counted_areas_def dest: collect_areas_Inr split: if_splits)

lemma calculateMetrics_Inr:
  assumes "calculateMetrics ds a cs = Inr (number, coverage, PSCV)" and "i < length cs"
  shows "\<exists>fs areas. frequencies ds = Some fs \<and> i < length fs \<and>
           class_areas ds a (fs ! i) (cs ! i) = Inr areas \<and>
           number ! i = length areas \<and> PSCV ! i = pscv_of areas"
proof -
  from assms(1) have loop: "calculateMetrics_loop ds a 0 cs = Inr (number, PSCV)"
    by (auto simp: calculateMetrics_def split: sum.splits prod.splits)
  from assms(2) have ne: "cs \<noteq> []" by auto
  from calculateMetrics_loop_Inr [OF loop] ne obtain fs where
    fs: "frequencies ds = Some fs" and
    all: "\<forall>k<length cs. 0 + k < length fs \<and>
             (\<exists>areas. class_areas ds a (fs ! (0 + k)) (cs ! k) = Inr areas
                \<and> number ! k = length areas \<and> PSCV ! k = pscv_of areas)"
    by auto
  from all assms(2) fs show ?thesis by auto
qed

lemma np_std_single: "np_std [x] = 0"
  by (simp add: np_std_def np_mean_def)

lemma pscv_of_mean:
  "0 < length areas \<Longrightarrow> np_mean areas \<noteq> 0 \<Longrightarrow>
   pscv_of areas = Fin (100 * np_std areas / np_mean areas)"
  by (simp add: pscv_of_def np_div_def Let_def)

lemma pscv_of_single:
  assumes "length areas = 1" and "areas ! 0 \<noteq> 0"
  shows "pscv_of areas = Fin 0"
proof -
  from assms(1) obtain x where x: "areas = [x]"
    by (cases areas) simp_all
  with assms(2) have "x \<noteq> 0" by simp
  with x show ?thesis
    by (simp add: pscv_of_def np_std_single np_div_def np_mean_def)
qed

lemma np_std_3_5: "np_std [3, 5] = 1"
  by (simp add: np_std_def np_mean_def)

lemma py_slice_replicate:
  "0 \<le> a \<Longrightarrow> a \<le> b \<Longrightarrow> b \<le> int n \<Longrightarrow> py_slice (replicate n x) a b = replicate (nat (b - a)) x"
  by (auto simp: py_slice_def Let_def min_def)

lemma count_label_replicate:
  "v \<noteq> i \<Longrightarrow> count_label (replicate n (replicate m v)) i = 0"
  by (simp add: count_label_def)

lemma coverage_demo:
  assumes "labels ds = Some labels_demo"
  shows "computeExactCoverage ds (mk_box 0 0 10 10) cs = Inr (map (\<lambda>i. 0) (py_range (int (length cs))))"
proof -
  have rows: "py_slice labels_demo 0 10 = replicate 10 (replicate 100 0)"
    unfolding labels_demo_def by (subst py_slice_replicate) simp_all
  have cols: "py_slice (replicate 100 (0::int)) 0 10 = replicate 10 0"
    by (subst py_slice_replicate) simp_all
  have cnt: "count_label (replicate 10 (replicate 10 0)) (i + 1) = 0" if "i \<in> set (py_range n)" for i n
    using that by (intro count_label_replicate) (auto simp: py_range_def)
  have "map (\<lambda>i. real (count_label (replicate 10 (replicate 10 0)) (i + 1)) / 100)
            (py_range (int (length cs)))
        = map (\<lambda>i. 0) (py_range (int (length cs)))"
    by (rule map_cong) (simp_all add: cnt)
  then show ?thesis
    using assms by (simp add: computeExactCoverage_def mk_box_def Let_def rows cols)
qed

lemma run_metrics_demo:
  "calculateMetrics ds_metrics (mk_box 0 0 10 10) [''A'', ''B'', ''C'']
     = Inr ([2, 0, 1], [0, 0, 0], [Fin 25, Fin 0, Fin 0])"
proof -
  have "labels ds_metrics = Some labels_demo" by (simp add: ds_metrics_def)
  then have cov: "computeExactCoverage ds_metrics (mk_box 0 0 10 10) [''A'', ''B'', ''C'']
                    = Inr [0, 0, 0]"
    by (simp add: coverage_demo py_range_def numeral_3_eq_3)
  have loop: "calculateMetrics_loop ds_metrics (mk_box 0 0 10 10) 0 [''A'', ''B'', ''C'']
                = Inr ([2, 0, 1], [Fin 25, Fin 0, Fin 0])"
    by (simp add: ds_metrics_def init_dataset_def blobs_demo_def
          class_areas_def checkBlobInside_def bbox_intersection_def mk_box_def Let_def
          pscv_of_def np_std_3_5 np_std_single np_mean_def np_div_def)
  show ?thesis unfolding calculateMetrics_def loop cov by simp
qed

lemma calculateMetrics_None:
  "frequencies ds = None \<Longrightarrow> cs \<noteq> [] \<Longrightarrow> calculateMetrics ds a cs = Inl TypeError"
  by (cases cs) (simp_all add: calculateMetrics_def)

lemma computeFrequencies_loop_length:
  "computeFrequencies_loop ds cs = Inr fs \<Longrightarrow> length fs = length cs"
  by (induction cs arbitrary: fs) (auto simp: Let_def split: if_splits sum.splits)

lemma run_zero_freq_demo:
  "calculateMetrics ds_zero_freq (mk_box 0 0 10 10) [''A'', ''B''] = Inr ([0, 0], [0, 0], [Fin 0, Fin 0])"
proof -
  have "labels ds_zero_freq = Some labels_demo" by (simp add: ds_zero_freq_def)
  then have cov: "computeExactCoverage ds_zero_freq (mk_box 0 0 10 10) [''A'', ''B''] = Inr [0, 0]"
    by (simp add: coverage_demo py_range_def numeral_2_eq_2)
  have loop: "calculateMetrics_loop ds_zero_freq (mk_box 0 0 10 10) 0 [''A'', ''B'']
                = Inr ([0, 0], [Fin 0, Fin 0])"
    by (simp add: ds_zero_freq_def init_dataset_def blobs_demo_def
          class_areas_def checkBlobInside_def bbox_intersection_def mk_box_def Let_def
          pscv_of_def np_mean_def np_div_def)
  show ?thesis unfolding calculateMetrics_def loop cov by simp
qed

lemma run_frequencies_demo:
  "computeFrequencies (init_dataset 100 100 blobs_demo) [''A'', ''B'']
     = Inr ((init_dataset 100 100 blobs_demo)\<lparr>frequencies := Some [8 / 10000, 4 / 10000]\<rparr>)"
  by (simp add: computeFrequencies_def init_dataset_def blobs_demo_def Let_def)

lemma run_zero_area_frequencies:
  "computeFrequencies (init_dataset 100 100 blobs_zero_area) [''A'']
     = Inr ((init_dataset 100 100 blobs_zero_area)\<lparr>frequencies := Some [4 / 10000]\<rparr>)"
  by (simp add: computeFrequencies_def init_dataset_def blobs_zero_area_def Let_def)

lemma run_zero_area:
  "calculateMetrics ds_zero_area (mk_box 0 0 10 10) [''A''] = Inr ([1], [0], [NaN])"
proof -
  have "labels ds_zero_area = Some labels_demo" by (simp add: ds_zero_area_def)
  then have cov: "computeExactCoverage ds_zero_area (mk_box 0 0 10 10) [''A''] = Inr [0]"
    by (simp add: coverage_demo py_range_def)
  have loop: "calculateMetrics_loop ds_zero_area (mk_box 0 0 10 10) 0 [''A''] = Inr ([1], [NaN])"
    by (simp add: ds_zero_area_def init_dataset_def blobs_zero_area_def
          class_areas_def checkBlobInside_def bbox_intersection_def mk_box_def Let_def
          pscv_of_def np_std_single np_mean_def np_div_def)
  show ?thesis unfolding calculateMetrics_def loop cov by simp
qed

text \<open>
  C6, as stated, fails: the division \<open>100 * std_areas / mean_areas\<close> has no guard.
  With the frequencies that \<open>computeFrequencies\<close> stores, a class whose only
  counted entity in the region has area 0 gets the PSCV \<open>0 / 0\<close>, which numpy
  evaluates to NaN, not 0, although the class has exactly one counted entity.
\<close>

theorem calculateMetrics_zero_area_counterexample:
  "computeFrequencies (init_dataset 100 100 blobs_zero_area) [''A'']
     = Inr ((init_dataset 100 100 blobs_zero_area)\<lparr>frequencies := Some [4 / 10000]\<rparr>)
   \<and> counted_areas ds_zero_area (mk_box 0 0 10 10) ''A'' = [0]
   \<and> calculateMetrics ds_zero_area (mk_box 0 0 10 10) [''A''] = Inr ([1], [0], [NaN])
   \<and> NaN \<noteq> Fin 0"
  using run_zero_area_frequencies run_zero_area
  by (simp add: counted_areas_def ds_zero_area_def init_dataset_def blobs_zero_area_def
        bbox_intersection_def mk_box_def Let_def)

text \<open>
  C6, amended.  Whenever \<open>calculateMetrics\<close> returns, the count of a class is the
  number of its counted entities, and its PSCV is the quotient, as numpy divides,
  of \<open>100 * population standard deviation\<close> by the mean of the areas of the counted
  entities when there is at least one, and 0 otherwise.  So the PSCV is
  \<open>100 * population standard deviation / mean\<close> when the class has at least one
  counted entity and the mean of the counted areas is not 0, and it is 0 whenever
  the class has no counted entity, or exactly one counted entity whose area is not
  0, for any region.
\<close>

theorem calculateMetrics_pscv:
  assumes run: "calculateMetrics ds a cs = Inr (number, coverage, PSCV)"
    and i: "i < length cs"
  shows "\<exists>fs areas.
           frequencies ds = Some fs \<and> i < length fs \<and>
           areas = (if fs ! i > 0 then counted_areas ds a (cs ! i) else []) \<and>
           number ! i = length areas \<and>
           PSCV ! i = (if 0 < length areas
                       then np_div (100 * np_std areas) (np_mean areas) else Fin 0) \<and>
           (0 < length areas \<and> np_mean areas \<noteq> 0
              \<longrightarrow> PSCV ! i = Fin (100 * np_std areas / np_mean areas)) \<and>
           (length areas = 0 \<longrightarrow> PSCV ! i = Fin 0) \<and>
           (length areas = 1 \<and> areas ! 0 \<noteq> 0 \<longrightarrow> PSCV ! i = Fin 0)"
proof -
  from calculateMetrics_Inr [OF run i] obtain fs areas where
    fs: "frequencies ds = Some fs" "i < length fs" and
    ar: "class_areas ds a (fs ! i) (cs ! i) = Inr areas" and
    out: "number ! i = length areas" "PSCV ! i = pscv_of areas"
    by blast
  have eq: "areas = (if fs ! i > 0 then counted_areas ds a (cs ! i) else [])"
    using class_areas_Inr [OF ar] .
  have p: "PSCV ! i = (if 0 < length areas
                       then np_div (100 * np_std areas) (np_mean areas) else Fin 0)"
    unfolding out by (simp add: pscv_of_def Let_def)
  have q: "0 < length areas \<and> np_mean areas \<noteq> 0
              \<longrightarrow> PSCV ! i = Fin (100 * np_std areas / np_mean areas)"
    unfolding out using pscv_of_mean by blast
  have r: "length areas = 0 \<longrightarrow> PSCV ! i = Fin 0"
    unfolding out by (simp add: pscv_of_def)
  have t: "length areas = 1 \<and> areas ! 0 \<noteq> 0 \<longrightarrow> PSCV ! i = Fin 0"
    unfolding out using pscv_of_single by blast
  from fs eq out(1) p q r t show ?thesis by blast
qed

theorem calculateMetrics_pscv_witness:
  "calculateMetrics ds_metrics (mk_box 0 0 10 10) [''A'', ''B'', ''C'']
     = Inr ([2, 0, 1], [0, 0, 0], [Fin 25, Fin 0, Fin 0])
   \<and> counted_areas ds_metrics (mk_box 0 0 10 10) ''A'' = [3, 5]
   \<and> np_mean [3, 5] = 4
   \<and> Fin 25 = Fin (100 * np_std [3, 5] / np_mean [3, 5])
   \<and> counted_areas ds_metrics (mk_box 0 0 10 10) ''C'' = [7]
   \<and> (\<exists>fs areas.
           frequencies ds_metrics = Some fs \<and> 2 < length fs \<and>
           areas = (if fs ! 2 > 0
                    then counted_areas ds_metrics (mk_box 0 0 10 10) ([''A'', ''B'', ''C''] ! 2)
                    else []) \<and>
           [2, 0, 1 :: nat] ! 2 = length areas \<and>
           [Fin 25, Fin 0, Fin 0] ! 2
             = (if 0 < length areas
                then np_div (100 * np_std areas) (np_mean areas) else Fin 0) \<and>
           (0 < length areas \<and> np_mean areas \<noteq> 0
              \<longrightarrow> [Fin 25, Fin 0, Fin 0] ! 2 = Fin (100 * np_std areas / np_mean areas)) \<and>
           (length areas = 0 \<longrightarrow> [Fin 25, Fin 0, Fin 0] ! 2 = Fin 0) \<and>
           (length areas = 1 \<and> areas ! 0 \<noteq> 0 \<longrightarrow> [Fin 25, Fin 0, Fin 0] ! 2 = Fin 0))"
proof -
  have i: "2 < length [''A'', ''B'', ''C'']" by simp
  have a: "counted_areas ds_metrics (mk_box 0 0 10 10) ''A'' = [3, 5]"
    and c: "counted_areas ds_metrics (mk_box 0 0 10 10) ''C'' = [7]"
    by (simp_all add: counted_areas_def ds_metrics_def init_dataset_def blobs_demo_def
          bbox_intersection_def mk_box_def Let_def)
  have m: "np_mean [3, 5] = 4" by (simp add: np_mean_def)
  have v: "Fin 25 = Fin (100 * np_std [3, 5] / np_mean [3, 5])"
    by (simp add: np_std_3_5 np_mean_def)
  note th = calculateMetrics_pscv [OF run_metrics_demo i]
  from run_metrics_demo a m v c th show ?thesis by (intro conjI)
qed

text \<open>
  C10.  For every region and every target class whose stored frequency is 0,
  \<open>calculateMetrics\<close> returns the count 0 and the PSCV 0 for that class, however
  many entities of the class lie inside the region: the loop over the entities is
  not entered (\<open>class_areas\<close> is the empty list without any call of
  \<open>checkBlobInside\<close>).  While \<open>self.frequencies\<close> is \<open>None\<close>,
  \<open>calculateMetrics\<close> fails on its first class; \<open>computeFrequencies\<close> stores one
  frequency for each target class.
\<close>

theorem calculateMetrics_zero_frequency:
  "(calculateMetrics ds a cs = Inr (number, coverage, PSCV) \<and> frequencies ds = Some fs
      \<and> i < length cs \<and> fs ! i = 0
     \<longrightarrow> number ! i = 0 \<and> PSCV ! i = Fin 0)
   \<and> class_areas ds a 0 c = Inr []
   \<and> (frequencies ds = None \<and> cs \<noteq> [] \<longrightarrow> calculateMetrics ds a cs = Inl TypeError)
   \<and> (computeFrequencies ds cs = Inr ds'
        \<longrightarrow> (\<exists>fs'. frequencies ds' = Some fs' \<and> length fs' = length cs))"
proof (intro conjI impI)
  assume h: "calculateMetrics ds a cs = Inr (number, coverage, PSCV) \<and> frequencies ds = Some fs
      \<and> i < length cs \<and> fs ! i = 0"
  then have run: "calculateMetrics ds a cs = Inr (number, coverage, PSCV)" and i: "i < length cs"
    by simp_all
  from calculateMetrics_Inr [OF run i] h obtain areas where
    ar: "class_areas ds a 0 (cs ! i) = Inr areas" and
    out: "number ! i = length areas" "PSCV ! i = pscv_of areas"
    by auto
  from ar have "areas = []" by (simp add: class_areas_def)
  with out show "number ! i = 0" "PSCV ! i = Fin 0" by (simp_all add: pscv_of_def)
next
  show "class_areas ds a 0 c = Inr []" by (simp add: class_areas_def)
next
  assume "frequencies ds = None \<and> cs \<noteq> []"
  then show "calculateMetrics ds a cs = Inl TypeError" by (simp add: calculateMetrics_None)
next
  assume "computeFrequencies ds cs = Inr ds'"
  then obtain fs' where "computeFrequencies_loop ds cs = Inr fs'" "ds' = ds\<lparr>frequencies := Some fs'\<rparr>"
    by (auto simp: computeFrequencies_def split: sum.splits)
  then show "\<exists>fs'. frequencies ds' = Some fs' \<and> length fs' = length cs"
    using computeFrequencies_loop_length by auto
qed

theorem calculateMetrics_zero_frequency_witness:
  "calculateMetrics ds_zero_freq (mk_box 0 0 10 10) [''A'', ''B''] = Inr ([0, 0], [0, 0], [Fin 0, Fin 0])
   \<and> frequencies ds_zero_freq = Some [0, 4 / 10000]
   \<and> length (counted_areas ds_zero_freq (mk_box 0 0 10 10) ''A'') = 2
   \<and> [0, 0 :: nat] ! 0 = 0 \<and> [Fin 0, Fin 0] ! 0 = Fin 0
   \<and> frequencies (init_dataset 100 100 blobs_demo) = None
   \<and> calculateMetrics (init_dataset 100 100 blobs_demo) (mk_box 0 0 10 10) [''A'', ''B''] = Inl TypeError
   \<and> (\<exists>fs'. frequencies ((init_dataset 100 100 blobs_demo)\<lparr>frequencies := Some [8 / 10000, 4 / 10000]\<rparr>) = Some fs'
          \<and> length fs' = length [''A'', ''B''])"
proof -
  have f: "frequencies ds_zero_freq = Some [0, 4 / 10000]"
    by (simp add: ds_zero_freq_def init_dataset_def)
  have n: "frequencies (init_dataset 100 100 blobs_demo) = None"
    by (simp add: init_dataset_def)
  have c: "length (counted_areas ds_zero_freq (mk_box 0 0 10 10) ''A'') = 2"
    by (simp add: counted_areas_def ds_zero_freq_def init_dataset_def blobs_demo_def
          bbox_intersection_def mk_box_def Let_def)
  show ?thesis
    using calculateMetrics_zero_frequency
            [of ds_zero_freq "mk_box 0 0 10 10" "[''A'', ''B'']" "[0, 0]" "[0, 0]" "[Fin 0, Fin 0]"
                "[0, 4 / 10000]" 0 "''A''"]
          calculateMetrics_zero_frequency
            [of "init_dataset 100 100 blobs_demo" "mk_box 0 0 10 10" "[''A'', ''B'']" _ _ _ _ _ _
                "(init_dataset 100 100 blobs_demo)\<lparr>frequencies := Some [8 / 10000, 4 / 10000]\<rparr>"]
          run_zero_freq_demo run_frequencies_demo f n c
    by simp
qed

subsection \<open>Radius field\<close>

text \<open>
  C4, as stated, fails: the source has no guard for \<open>f_max = f_min\<close>.  With a
  single target class the two raw values are both the frequency of that class,
  the division is \<open>0 / 0\<close>, and every radius is NaN instead of the midpoint.
\<close>

theorem radius_values_single_class_counterexample:
  "Max (set (sum_list [3 / 10] # [3 / 10 :: real])) = Min (set (sum_list [3 / 10] # [3 / 10 :: real]))
   \<and> radius_values [3 / 10] 10 100 = [NaN, NaN]
   \<and> radius_values [3 / 10] 10 100 \<noteq> [Fin (1 / 2 * (100 - 10) + 10), Fin (1 / 2 * (100 - 10) + 10)]"
  by (simp add: radius_values_def np_div_def Let_def)

text \<open>
  C4, amended.  The table has \<open>K + 1\<close> values.  Whenever the raw values
  (index 0 the sum of all frequencies, index \<open>i\<close> the frequency \<open>i - 1\<close>) are not
  all equal, each is min-max normalised to a value \<open>n\<close> in \<open>[0, 1]\<close> and rescaled
  to \<open>n * (radius_max - radius_min) + radius_min\<close>, which lies in
  \<open>[radius_min, radius_max]\<close> when \<open>radius_min \<le> radius_max\<close>.
\<close>

theorem radius_values_normalized:
  assumes ne: "Max (set (sum_list fs # fs)) \<noteq> Min (set (sum_list fs # fs))"
    and i: "i \<le> length fs"
  shows "length (radius_values fs rmin rmax) = length fs + 1
         \<and> (\<exists>n. n = ((sum_list fs # fs) ! i - Min (set (sum_list fs # fs)))
                      / (Max (set (sum_list fs # fs)) - Min (set (sum_list fs # fs)))
                \<and> 0 \<le> n \<and> n \<le> 1
                \<and> radius_values fs rmin rmax ! i = Fin (n * (rmax - rmin) + rmin)
                \<and> (rmin \<le> rmax \<longrightarrow> rmin \<le> n * (rmax - rmin) + rmin
                                      \<and> n * (rmax - rmin) + rmin \<le> rmax))"
proof -
  define raw where "raw = sum_list fs # fs"
  define lo where "lo = Min (set raw)"
  define hi where "hi = Max (set raw)"
  define n where "n = (raw ! i - lo) / (hi - lo)"
  have mem: "raw ! i \<in> set raw" using i by (intro nth_mem) (simp add: raw_def)
  have lo: "lo \<le> raw ! i" unfolding lo_def using mem by (intro Min_le) auto
  have hi: "raw ! i \<le> hi" unfolding hi_def using mem by (intro Max_ge) auto
  have "lo \<le> hi" using lo hi by simp
  with ne have lt: "lo < hi" by (simp add: lo_def hi_def raw_def)
  have n0: "0 \<le> n" using lo lt by (simp add: n_def)
  have n1: "n \<le> 1" using hi lt by (simp add: n_def)
  have len: "length (radius_values fs rmin rmax) = length fs + 1"
    by (simp add: radius_values_def Let_def)
  have "radius_values fs rmin rmax ! i
          = np_add (np_mul (np_div (raw ! i - lo) (hi - lo)) (rmax - rmin)) rmin"
    using i unfolding radius_values_def Let_def raw_def [symmetric] lo_def [symmetric] hi_def [symmetric]
    by (intro nth_map) (simp add: raw_def)
  also have "\<dots> = Fin (n * (rmax - rmin) + rmin)"
    using lt by (simp add: np_div_def n_def)
  finally have val: "radius_values fs rmin rmax ! i = Fin (n * (rmax - rmin) + rmin)" .
  have rng: "rmin \<le> rmax \<longrightarrow> rmin \<le> n * (rmax - rmin) + rmin \<and> n * (rmax - rmin) + rmin \<le> rmax"
  proof
    assume le: "rmin \<le> rmax"
    have a: "0 \<le> n * (rmax - rmin)" using n0 le by simp
    have "n * (rmax - rmin) \<le> 1 * (rmax - rmin)" using n1 le by (intro mult_right_mono) simp_all
    with a show "rmin \<le> n * (rmax - rmin) + rmin \<and> n * (rmax - rmin) + rmin \<le> rmax" by simp
  qed
  show ?thesis
    using len n0 n1 val rng unfolding n_def lo_def hi_def raw_def by blast
qed

theorem radius_values_normalized_witness:
  "Max (set (sum_list [1 / 10, 3 / 10] # [1 / 10, 3 / 10 :: real]))
     \<noteq> Min (set (sum_list [1 / 10, 3 / 10] # [1 / 10, 3 / 10 :: real]))
   \<and> (2 :: nat) \<le> length [1 / 10, 3 / 10 :: real]
   \<and> (10 :: real) \<le> 100
   \<and> radius_values [1 / 10, 3 / 10] 10 100 = [Fin 100, Fin 10, Fin 70]"
  using radius_values_normalized [of "[1 / 10, 3 / 10]" 2 10 100]
  by (simp add: radius_values_def np_div_def Let_def)

subsection \<open>Importance sampling\<close>

lemma check_samples_True:
  "check_samples ds r1 p cs = Inr True \<Longrightarrow>
     \<forall>q\<in>set cs. \<exists>r2. radius_at ds q = Inr r2 \<and> \<not> closer r1 r2 (distance q p)"
  by (induction cs) (auto split: sum.splits if_splits)










lemma randint_pos: "randint a b g = Inr (v, g') \<Longrightarrow> pos g' = pos g + 1"
  by (auto simp: randint_def split: if_splits)

lemma try_point_cases:
  assumes "try_point ds p s = Inr s'"
  shows "snd s' = snd s \<and>
         (fst s' = fst s \<or> (fst s' = fst s @ [p] \<and> (\<forall>q\<in>set (fst s). apart ds q p)))"
proof -
  from assms obtain r1 flag where r1: "radius_at ds p = Inr r1"
    and ck: "check_samples ds r1 p (fst s) = Inr flag"
    and s': "s' = (if flag then (fst s @ [p], snd s) else s)"
    by (auto simp: try_point_def split: sum.splits)
  show ?thesis
  proof (cases flag)
    case True
    with ck have "check_samples ds r1 p (fst s) = Inr True" by simp
    then have "\<forall>q\<in>set (fst s). \<exists>r2. radius_at ds q = Inr r2 \<and> \<not> closer r1 r2 (distance q p)"
      by (rule check_samples_True)
    then have "\<forall>q\<in>set (fst s). apart ds q p" using r1 by (auto simp: apart_def)
    with True s' show ?thesis by simp
  next
    case False
    with s' show ?thesis by simp
  qed
qed

lemma blob_attempt_cases:
  assumes "blob_attempt ds blob s = Inr s'"
  shows "pos (snd s') = pos (snd s) + 2 \<and>
         (fst s' = fst s \<or>
          (\<exists>p. fst s' = fst s @ [p] \<and> in_mask blob p \<and> (\<forall>q\<in>set (fst s). apart ds q p)))"
proof -
  from assms obtain px g1 py g2 m where
    r1: "randint 1 (bwidth (bbox blob) - 1) (snd s) = Inr (px, g1)" and
    r2: "randint 1 (bheight (bbox blob) - 1) g1 = Inr (py, g2)" and
    m: "np_index2 (mask blob) py px = Inr m" and
    rest: "(if m = 1 then try_point ds (px + bleft (bbox blob), py + btop (bbox blob)) (fst s, g2)
            else Inr (fst s, g2)) = Inr s'"
    by (auto simp: blob_attempt_def Let_def split: sum.splits prod.splits)
  have pos: "pos g2 = pos (snd s) + 2" using randint_pos [OF r1] randint_pos [OF r2] by simp
  show ?thesis
  proof (cases "m = 1")
    case True
    define p where "p = (px + bleft (bbox blob), py + btop (bbox blob))"
    from True rest have tp: "try_point ds p (fst s, g2) = Inr s'" by (simp add: p_def)
    have im: "in_mask blob p" using m True by (simp add: in_mask_def p_def)
    from try_point_cases [OF tp] have a: "snd s' = g2"
      and b: "fst s' = fst s \<or> (fst s' = fst s @ [p] \<and> (\<forall>q\<in>set (fst s). apart ds q p))"
      by simp_all
    from b im have "fst s' = fst s \<or>
          (\<exists>p. fst s' = fst s @ [p] \<and> in_mask blob p \<and> (\<forall>q\<in>set (fst s). apart ds q p))"
      by blast
    with a pos show ?thesis by simp
  next
    case False
    with rest pos show ?thesis by auto
  qed
qed

lemma for_each_counted:
  assumes step: "\<And>x n s s'. Q n s \<Longrightarrow> body x s = Inr s' \<Longrightarrow> Q (Suc n) s'"
  shows "Q n s \<Longrightarrow> for_each body xs s = Inr s' \<Longrightarrow> Q (n + length xs) s'"
proof (induction xs arbitrary: s n)
  case Nil
  then show ?case by simp
next
  case (Cons x xs)
  from Cons.prems(2) obtain s1 where b: "body x s = Inr s1" and r: "for_each body xs s1 = Inr s'"
    by (auto split: sum.splits)
  have "Q (Suc n) s1" using step [OF Cons.prems(1) b] .
  then have "Q (Suc n + length xs) s'" using r by (rule Cons.IH)
  then show ?case by simp
qed

lemma attempts_inv_step:
  assumes inv: "attempts_inv ds blob s0 n s" and b: "blob_attempt ds blob s = Inr s'"
  shows "attempts_inv ds blob s0 (Suc n) s'"
proof -
  from inv obtain new where pos: "pos (snd s) = pos (snd s0) + 2 * n"
    and new: "fst s = fst s0 @ new" "length new \<le> n"
    and ok: "\<forall>k<length new. in_mask blob (new ! k) \<and>
                          (\<forall>q\<in>set (fst s0 @ take k new). apart ds q (new ! k))"
    unfolding attempts_inv_def by blast
  from blob_attempt_cases [OF b] have pos': "pos (snd s') = pos (snd s) + 2"
    and alt: "fst s' = fst s \<or>
          (\<exists>p. fst s' = fst s @ [p] \<and> in_mask blob p \<and> (\<forall>q\<in>set (fst s). apart ds q p))"
    by simp_all
  from alt show ?thesis
  proof
    assume "fst s' = fst s"
    with pos pos' new ok show ?thesis
      unfolding attempts_inv_def by (intro conjI exI [of _ new]) simp_all
  next
    assume "\<exists>p. fst s' = fst s @ [p] \<and> in_mask blob p \<and> (\<forall>q\<in>set (fst s). apart ds q p)"
    then obtain p where p: "fst s' = fst s @ [p]" "in_mask blob p" "\<forall>q\<in>set (fst s). apart ds q p"
      by blast
    have ok': "\<forall>k<length (new @ [p]). in_mask blob ((new @ [p]) ! k) \<and>
                 (\<forall>q\<in>set (fst s0 @ take k (new @ [p])). apart ds q ((new @ [p]) ! k))"
    proof (intro allI impI)
      fix k assume k: "k < length (new @ [p])"
      show "in_mask blob ((new @ [p]) ! k) \<and>
                 (\<forall>q\<in>set (fst s0 @ take k (new @ [p])). apart ds q ((new @ [p]) ! k))"
      proof (cases "k < length new")
        case True
        with ok show ?thesis by (simp add: nth_append)
      next
        case False
        with k have "k = length new" by simp
        with p new(1) show ?thesis by (simp add: nth_append)
      qed
    qed
    show ?thesis
      unfolding attempts_inv_def
      using pos pos' new p(1) ok' by (intro conjI exI [of _ "new @ [p]"]) simp_all
  qed
qed

lemma for_each_if_filter:
  "for_each (\<lambda>x s. if P x then body x s else Inr s) xs s = for_each body (filter P xs) s"
  by (induction xs arbitrary: s) (auto split: sum.splits)

lemma for_each_append:
  "for_each body (xs @ ys) s =
     (case for_each body xs s of Inl e \<Rightarrow> Inl e | Inr s' \<Rightarrow> for_each body ys s')"
  by (induction xs arbitrary: s) (auto split: sum.splits)

lemma for_each_concat:
  "for_each (\<lambda>c. for_each body (f c)) cs s = for_each body (concat (map f cs)) s"
  by (induction cs arbitrary: s) (auto simp: for_each_append split: sum.splits)

lemma sqrt_less_nonneg: "0 \<le> c \<Longrightarrow> (sqrt x < c) = (x < c * c)"
  using real_sqrt_less_iff [of x "c * c"] by simp

lemma for_each_ignore:
  fixes ys :: "'a list" and zs :: "'b list"
  shows "length ys = length zs \<Longrightarrow> for_each (\<lambda>i. f) ys t = for_each (\<lambda>i. f) zs t"
proof (induction ys arbitrary: zs t)
  case Nil
  then show ?case by simp
next
  case (Cons y ys)
  then obtain z zs' where zs: "zs = z # zs'" "length ys = length zs'" by (cases zs) auto
  have "for_each (\<lambda>i. f) ys u = for_each (\<lambda>i. f) zs' u" for u
    using zs(2) by (rule Cons.IH)
  then show ?case by (simp add: zs(1) split: sum.splits)
qed

lemma for_each_ignore_Suc:
  assumes "length xs = Suc k"
  shows "for_each (\<lambda>i. f) xs s =
     (case f s of Inl e \<Rightarrow> Inl e | Inr s' \<Rightarrow> for_each (\<lambda>i. f) (py_range (int k)) s')"
proof -
  from assms obtain x xs' where xs: "xs = x # xs'" "length xs' = k" by (cases xs) auto
  have "length xs' = length (py_range (int k))" using xs(2) by (simp add: py_range_def)
  then have "for_each (\<lambda>i. f) xs' u = for_each (\<lambda>i. f) (py_range (int k)) u" for u
    by (rule for_each_ignore)
  then show ?thesis by (simp add: xs(1) split: sum.splits)
qed

lemma attempts_numeral:
  "for_each (\<lambda>i. f) (py_range (numeral n)) s =
     (case f s of Inl e \<Rightarrow> Inl e
      | Inr s' \<Rightarrow> for_each (\<lambda>i. f) (py_range (int (pred_numeral n))) s')"
  by (rule for_each_ignore_Suc) (simp add: py_range_def numeral_eq_Suc)

lemma py_range_one: "py_range 1 = [0]"
  by (simp add: py_range_def)

lemma py_range_zero: "py_range 0 = []"
  by (simp add: py_range_def)

lemmas sampler_eval =
  randint_def np_index_def np_index2_def radius_at_def distance_def try_point_def
  closer_def np_div_def
  blob_attempt_def subarea_attempt_def importanceSamplingBlob_def importanceSamplingSubArea_def
  attempts_numeral py_range_one py_range_zero
  Let_def mk_box_def ds_sampling_def init_dataset_def sqrt_less_nonneg

lemma run_blob_demo:
  "importanceSamplingBlob ds_sampling blob_poc ([], g_demo) = Inr ([(6, 6)], g_demo\<lparr>pos := 60\<rparr>)"
  by (simp add: sampler_eval blob_poc_def g_demo_def)

lemma run_hole_30:
  "importanceSamplingBlob ds_sampling blob_hole ([], g_late) = Inr ([], g_late\<lparr>pos := 60\<rparr>)"
  by (simp add: sampler_eval blob_hole_def g_late_def)

lemma run_hole_31:
  "for_each (\<lambda>i. blob_attempt ds_sampling blob_hole) (py_range 31) ([], g_late)
     = Inr ([(7, 7)], g_late\<lparr>pos := 62\<rparr>)"
  by (simp add: sampler_eval blob_hole_def g_late_def)


lemma run_blob_other_entity:
  "importanceSamplingBlob ds_sampling blob_poc ([(6, 7)], g_demo) = Inr ([(6, 7)], g_demo\<lparr>pos := 60\<rparr>)"
  by (simp add: sampler_eval blob_poc_def g_demo_def)


lemma radius_at_member:
  assumes "radius_at ds p = Inr r"
  shows "\<exists>rm row. radius_map ds = Some rm \<and> row \<in> set rm \<and> r \<in> set row"
proof -
  from assms obtain rm row where rm: "radius_map ds = Some rm"
    and row: "np_index rm (snd p) = Inr row" and r: "np_index row (fst p) = Inr r"
    by (auto simp: radius_at_def np_index2_def split: option.splits sum.splits)
  have mem: "y \<in> set xs" if "np_index xs k = Inr y" for xs :: "'a list" and k y
    using that by (auto simp: np_index_def Let_def split: if_splits)
  from mem [OF row] mem [OF r] rm show ?thesis by blast
qed

lemma finite_field_radius:
  assumes "finite_field ds" and "radius_at ds p = Inr r"
  shows "\<exists>x. r = Fin x"
proof -
  from radius_at_member [OF assms(2)] obtain rm row where
    "radius_map ds = Some rm" "row \<in> set rm" "r \<in> set row" by blast
  with assms(1) have "is_fin r" by (auto simp: finite_field_def list_all_iff)
  then show ?thesis by (cases r) simp_all
qed

lemma apart_finite:
  assumes "finite_field ds" and "apart ds q p"
  shows "\<exists>rq rp. radius_at ds q = Inr (Fin rq) \<and> radius_at ds p = Inr (Fin rp)
           \<and> (rq + rp) / 2 \<le> distance q p"
proof -
  from assms(2) obtain r1 r2 where p: "radius_at ds p = Inr r1" and q: "radius_at ds q = Inr r2"
    and nc: "\<not> closer r1 r2 (distance q p)"
    unfolding apart_def by blast
  from finite_field_radius [OF assms(1) p] obtain rp where rp: "r1 = Fin rp" by blast
  from finite_field_radius [OF assms(1) q] obtain rq where rq: "r2 = Fin rq" by blast
  from nc have "(rq + rp) / 2 \<le> distance q p"
    by (simp add: closer_def rp rq np_div_def add.commute)
  with p q rp rq show ?thesis by blast
qed

















text \<open>
  C3, as stated, fails: the sampler makes 30 attempts for an entity, not up to
  1000.  For the entity whose mask has the single pixel \<open>(7, 7)\<close> and a random
  source whose first 30 draws miss it, no sample is returned, although the 31st
  attempt would draw and accept that pixel.  Nor is the acceptance test confined
  to the entity's own samples: with the sample \<open>(6, 7)\<close> of an earlier entity in
  the list, every draw \<open>(6, 6)\<close> of the full entity is rejected.
\<close>

theorem importanceSamplingBlob_1000_counterexample:
  "importanceSamplingBlob ds_sampling blob_hole ([], g_late) = Inr ([], g_late\<lparr>pos := 60\<rparr>)
   \<and> for_each (\<lambda>i. blob_attempt ds_sampling blob_hole) (py_range 31) ([], g_late)
        = Inr ([(7, 7)], g_late\<lparr>pos := 62\<rparr>)
   \<and> in_mask blob_hole (7, 7)
   \<and> importanceSamplingBlob ds_sampling blob_poc ([(6, 7)], g_demo)
        = Inr ([(6, 7)], g_demo\<lparr>pos := 60\<rparr>)"
  using run_hole_30 run_hole_31 run_blob_other_entity
  by (simp add: in_mask_def blob_hole_def np_index2_def np_index_def mk_box_def)

text \<open>
  C3, amended.  The per-entity phase runs \<open>importanceSamplingBlob\<close> on every
  entity of each class of the fixed priority list, class by class.  For one
  entity the sampler makes exactly 30 attempts (60 random numbers); what it
  accepts is appended to the current samples, at most 30 points; every accepted
  point lies inside the entity's local mask, and for it and every sample accepted
  before it in the run, those of earlier entities included, the test
  \<open>distance < (radius + radius) / 2\<close> of the source is false.  When the radius
  field is finite (no NaN, no infinity), the accepted point is therefore at a
  distance of at least the average of the two radius-field values from every
  such sample.
\<close>

theorem importanceSamplingBlob_attempts:
  "sample_rare_blobs ds s = for_each (importanceSamplingBlob ds) (rare_entities ds) s
   \<and> (importanceSamplingBlob ds blob (current_samples, g) = Inr (out, g') \<longrightarrow>
        pos g' = pos g + 2 * 30 \<and>
        (\<exists>new. out = current_samples @ new \<and> length new \<le> 30 \<and>
           (\<forall>k<length new.
              in_mask blob (new ! k) \<and>
              (\<forall>q\<in>set (current_samples @ take k new).
                 apart ds q (new ! k) \<and>
                 (finite_field ds \<longrightarrow>
                    (\<exists>rq rp. radius_at ds q = Inr (Fin rq) \<and> radius_at ds (new ! k) = Inr (Fin rp)
                       \<and> (rq + rp) / 2 \<le> distance q (new ! k)))))))"
proof (rule conjI)
  have inner: "for_each (\<lambda>blob s'. if class_name blob = c
                                     then importanceSamplingBlob ds blob s' else Inr s') (blobs ds)
               = for_each (importanceSamplingBlob ds)
                   (filter (\<lambda>blob. class_name blob = c) (blobs ds))" for c
    by (rule ext) (rule for_each_if_filter)
  show "sample_rare_blobs ds s = for_each (importanceSamplingBlob ds) (rare_entities ds) s"
    unfolding sample_rare_blobs_def rare_entities_def inner by (rule for_each_concat)
next
  show "importanceSamplingBlob ds blob (current_samples, g) = Inr (out, g') \<longrightarrow>
        pos g' = pos g + 2 * 30 \<and>
        (\<exists>new. out = current_samples @ new \<and> length new \<le> 30 \<and>
           (\<forall>k<length new.
              in_mask blob (new ! k) \<and>
              (\<forall>q\<in>set (current_samples @ take k new).
                 apart ds q (new ! k) \<and>
                 (finite_field ds \<longrightarrow>
                    (\<exists>rq rp. radius_at ds q = Inr (Fin rq) \<and> radius_at ds (new ! k) = Inr (Fin rp)
                       \<and> (rq + rp) / 2 \<le> distance q (new ! k))))))"
  proof (rule impI)
    assume run: "importanceSamplingBlob ds blob (current_samples, g) = Inr (out, g')"
    have init: "attempts_inv ds blob (current_samples, g) 0 (current_samples, g)"
      by (simp add: attempts_inv_def)
    have "attempts_inv ds blob (current_samples, g) (0 + length (py_range 30)) (out, g')"
      using init run unfolding importanceSamplingBlob_def
      by (rule for_each_counted [where Q = "attempts_inv ds blob (current_samples, g)", rotated])
         (rule attempts_inv_step)
    then have "attempts_inv ds blob (current_samples, g) 30 (out, g')"
      by (simp add: py_range_def)
    then obtain new where pos: "pos g' = pos g + 2 * 30"
      and new: "out = current_samples @ new" "length new \<le> 30"
      and ok: "\<forall>k<length new. in_mask blob (new ! k) \<and>
                 (\<forall>q\<in>set (current_samples @ take k new). apart ds q (new ! k))"
      by (auto simp: attempts_inv_def)
    have ok': "\<forall>k<length new.
              in_mask blob (new ! k) \<and>
              (\<forall>q\<in>set (current_samples @ take k new).
                 apart ds q (new ! k) \<and>
                 (finite_field ds \<longrightarrow>
                    (\<exists>rq rp. radius_at ds q = Inr (Fin rq) \<and> radius_at ds (new ! k) = Inr (Fin rp)
                       \<and> (rq + rp) / 2 \<le> distance q (new ! k))))"
      using ok apart_finite by blast
    from pos new ok' show "pos g' = pos g + 2 * 30 \<and>
        (\<exists>new. out = current_samples @ new \<and> length new \<le> 30 \<and>
           (\<forall>k<length new.
              in_mask blob (new ! k) \<and>
              (\<forall>q\<in>set (current_samples @ take k new).
                 apart ds q (new ! k) \<and>
                 (finite_field ds \<longrightarrow>
                    (\<exists>rq rp. radius_at ds q = Inr (Fin rq) \<and> radius_at ds (new ! k) = Inr (Fin rp)
                       \<and> (rq + rp) / 2 \<le> distance q (new ! k))))))"
      by blast
  qed
qed

theorem importanceSamplingBlob_attempts_witness:
  "importanceSamplingBlob ds_sampling blob_poc ([(75, 75)], g_demo)
     = Inr ([(75, 75), (6, 6)], g_demo\<lparr>pos := 60\<rparr>)
   \<and> finite_field ds_sampling
   \<and> pos (g_demo\<lparr>pos := 60\<rparr>) = pos g_demo + 2 * 30
   \<and> (\<exists>new. [(75, 75), (6, 6)] = [(75, 75)] @ new \<and> length new \<le> 30 \<and>
           (\<forall>k<length new.
              in_mask blob_poc (new ! k) \<and>
              (\<forall>q\<in>set ([(75, 75)] @ take k new).
                 apart ds_sampling q (new ! k) \<and>
                 (\<exists>rq rp. radius_at ds_sampling q = Inr (Fin rq)
                    \<and> radius_at ds_sampling (new ! k) = Inr (Fin rp)
                    \<and> (rq + rp) / 2 \<le> distance q (new ! k)))))"
proof -
  have f: "finite_field ds_sampling"
    by (simp add: finite_field_def ds_sampling_def list_all_iff)
  have run: "importanceSamplingBlob ds_sampling blob_poc ([(75, 75)], g_demo)
               = Inr ([(75, 75), (6, 6)], g_demo\<lparr>pos := 60\<rparr>)"
    by (simp add: sampler_eval blob_poc_def g_demo_def)
  show ?thesis
    using importanceSamplingBlob_attempts
            [of ds_sampling "([], g_demo)" blob_poc "[(75, 75)]" g_demo "[(75, 75), (6, 6)]"
                "g_demo\<lparr>pos := 60\<rparr>"]
          run f
    by simp
qed

end
